theory Spec2Isabelle
  imports Main
begin

section \<open>Data model (types.h, ipc_manager.cpp)\<close>

text \<open>
  The sources: \<open>ipc_manager.cpp\<close> and \<open>worker_process.cpp\<close> of the market data feeder,
  the supervisor's implementation (the file that includes \<open>master/master_process.h\<close>,
  \<open>src/unnamed/part_005\<close>) and \<open>types.h\<close> (\<open>src/unnamed/part_006\<close>). The records have the
  fields the .cpp files read and write.

  Process ids and \<open>time_t\<close> values are \<open>int\<close>; the live count of the shared table and the
  statistics counters are \<open>nat\<close> (they start at 0 and are only ever incremented, or
  decremented after an entry was found). The fixed array \<open>workers[MAX_WORKER_PROCESSES]\<close>
  is a function from the index to the entry; the code only reads and writes indices below
  the live count, and writes index \<open>worker_count\<close> only under the guard
  \<open>worker_count < MAX_WORKER_PROCESSES\<close>.
\<close>

datatype ProcessStatus = STARTING | RUNNING | STOPPING | STOPPED | CRASHED

record ProcessInfo =
  pid :: int
  worker_id :: int
  status :: ProcessStatus
  start_time :: int
  last_heartbeat :: int

record ProcessStatistics =
  s_worker_id :: int
  s_start_time :: int
  messages_processed :: nat
  data_received :: nat
  data_sent :: nat
  errors :: nat
  last_update :: int

record SharedMemoryData =
  workers :: "nat \<Rightarrow> ProcessInfo"
  worker_count :: nat
  stats :: ProcessStatistics
  shutdown_flag :: bool
  reload_flag :: bool
  master_pid :: int
  shm_start_time :: int

text \<open>
  The members of \<open>IPCManager\<close>, written without the trailing underscore of the C++
  names (\<open>initialized_\<close> is \<open>initialized\<close>, and so on). \<open>shared_data\<close> is the attached
  region as this process sees it: \<open>None\<close> is the null pointer.
\<close>

record IPCManager =
  is_master :: bool
  initialized :: bool
  msg_queue_id :: int
  shm_id :: int
  sem_id :: int
  shared_data :: "SharedMemoryData option"

definition MAX_WORKER_PROCESSES :: nat where
  "MAX_WORKER_PROCESSES = 64"

definition HEARTBEAT_TIMEOUT :: int where
  "HEARTBEAT_TIMEOUT = 60"

definition GRACEFUL_SHUTDOWN_TIMEOUT :: nat where
  "GRACEFUL_SHUTDOWN_TIMEOUT = 30"

section \<open>The lock and the shared table (ipc_manager.cpp)\<close>

text \<open>
  \<open>lockSharedMemory\<close>: fails when the manager is not initialised or has no semaphore set,
  and when the \<open>semop\<close> system call fails. The outcome of \<open>semop\<close> is an input
  (\<open>semop_ok\<close>): it is the kernel's answer, not the program's. The index argument only
  selects the semaphore of the set (\<open>SEM_WORKER_LIST\<close> for the table, \<open>SEM_STATISTICS\<close>
  for the statistics) and is left out. \<open>unlockSharedMemory\<close> changes nothing the model
  holds, and its result is never looked at.
\<close>

definition lockSharedMemory :: "IPCManager \<Rightarrow> bool \<Rightarrow> bool" where
  "lockSharedMemory m semop_ok =
     (if \<not> initialized m \<or> sem_id m = -1 then False
      else if \<not> semop_ok then False
      else True)"

text \<open>The entries below the live count, in table order.\<close>

definition live :: "SharedMemoryData \<Rightarrow> ProcessInfo list" where
  "live sd = map (workers sd) [0..<worker_count sd]"

text \<open>
  \<open>addWorkerProcess(pid, worker_id)\<close>. \<open>now\<close> is what \<open>time(nullptr)\<close> returns inside the
  critical section (read for \<open>start_time\<close> and for \<open>last_heartbeat\<close>).
\<close>

definition addWorkerProcess ::
  "IPCManager \<Rightarrow> bool \<Rightarrow> int \<Rightarrow> int \<Rightarrow> int \<Rightarrow> bool \<times> IPCManager" where
  "addWorkerProcess m semop_ok p wid now =
     (if \<not> lockSharedMemory m semop_ok then (False, m)
      else case shared_data m of
        None \<Rightarrow> (False, m)
      | Some sd \<Rightarrow>
          if worker_count sd < MAX_WORKER_PROCESSES then
            let info = \<lparr>pid = p, worker_id = wid, status = STARTING,
                        start_time = now, last_heartbeat = now\<rparr>;
                sd' = sd\<lparr>workers := (workers sd)(worker_count sd := info),
                         worker_count := worker_count sd + 1\<rparr>
            in (True, m\<lparr>shared_data := Some sd'\<rparr>)
          else (False, m))"

text \<open>
  The inner loop of \<open>removeWorkerProcess\<close>:
  \<open>for (j = i; j < worker_count - 1; ++j) workers[j] = workers[j + 1]\<close>.
\<close>

function shift_down :: "(nat \<Rightarrow> ProcessInfo) \<Rightarrow> nat \<Rightarrow> nat \<Rightarrow> (nat \<Rightarrow> ProcessInfo)" where
  "shift_down ws j n =
     (if j + 1 < n then shift_down (ws(j := ws (j + 1))) (j + 1) n else ws)"
  by pat_completeness auto
termination
  by (relation "measure (\<lambda>(ws, j, n). n - j)") auto

declare shift_down.simps [simp del]

text \<open>
  The search loop shared by \<open>removeWorkerProcess\<close> and \<open>updateWorkerStatus\<close>: the first index
  below the live count whose entry has the pid, after which the loop breaks.
\<close>

definition find_pid :: "SharedMemoryData \<Rightarrow> int \<Rightarrow> nat option" where
  "find_pid sd p = List.find (\<lambda>i. pid (workers sd i) = p) [0..<worker_count sd]"

definition removeWorkerProcess :: "IPCManager \<Rightarrow> bool \<Rightarrow> int \<Rightarrow> bool \<times> IPCManager" where
  "removeWorkerProcess m semop_ok p =
     (if \<not> lockSharedMemory m semop_ok then (False, m)
      else case shared_data m of
        None \<Rightarrow> (False, m)
      | Some sd \<Rightarrow>
          (case find_pid sd p of
             None \<Rightarrow> (False, m)
           | Some i \<Rightarrow>
               (True, m\<lparr>shared_data :=
                  Some (sd\<lparr>workers := shift_down (workers sd) i (worker_count sd),
                           worker_count := worker_count sd - 1\<rparr>)\<rparr>)))"

definition updateWorkerStatus ::
  "IPCManager \<Rightarrow> bool \<Rightarrow> int \<Rightarrow> ProcessStatus \<Rightarrow> int \<Rightarrow> bool \<times> IPCManager" where
  "updateWorkerStatus m semop_ok p st now =
     (if \<not> lockSharedMemory m semop_ok then (False, m)
      else case shared_data m of
        None \<Rightarrow> (False, m)
      | Some sd \<Rightarrow>
          (case find_pid sd p of
             None \<Rightarrow> (False, m)
           | Some i \<Rightarrow>
               (True, m\<lparr>shared_data :=
                  Some (sd\<lparr>workers := (workers sd)
                     (i := (workers sd i)\<lparr>status := st, last_heartbeat := now\<rparr>)\<rparr>)\<rparr>)))"

text \<open>
  \<open>updateStatistics(stats)\<close>: the stored record is assigned the argument, then its
  \<open>last_update\<close> is stamped. The function returns true whenever the lock was taken, also
  with no region attached.
\<close>

definition updateStatistics ::
  "IPCManager \<Rightarrow> bool \<Rightarrow> ProcessStatistics \<Rightarrow> int \<Rightarrow> bool \<times> IPCManager" where
  "updateStatistics m semop_ok st now =
     (if \<not> lockSharedMemory m semop_ok then (False, m)
      else case shared_data m of
        None \<Rightarrow> (True, m)
      | Some sd \<Rightarrow>
          (True, m\<lparr>shared_data := Some (sd\<lparr>stats := st\<lparr>last_update := now\<rparr>\<rparr>)\<rparr>))"

definition getStatistics :: "IPCManager \<Rightarrow> bool \<Rightarrow> ProcessStatistics" where
  "getStatistics m semop_ok =
     (let zero = \<lparr>s_worker_id = 0, s_start_time = 0, messages_processed = 0,
                  data_received = 0, data_sent = 0, errors = 0, last_update = 0\<rparr>
      in if lockSharedMemory m semop_ok
         then (case shared_data m of None \<Rightarrow> zero | Some sd \<Rightarrow> stats sd)
         else zero)"

definition getWorkerProcesses :: "IPCManager \<Rightarrow> bool \<Rightarrow> ProcessInfo list" where
  "getWorkerProcesses m semop_ok =
     (if lockSharedMemory m semop_ok
      then (case shared_data m of None \<Rightarrow> [] | Some sd \<Rightarrow> live sd)
      else [])"

definition setShutdownFlag :: "IPCManager \<Rightarrow> bool \<Rightarrow> IPCManager" where
  "setShutdownFlag m flag =
     (case shared_data m of
        None \<Rightarrow> m
      | Some sd \<Rightarrow> m\<lparr>shared_data := Some (sd\<lparr>shutdown_flag := flag\<rparr>)\<rparr>)"

definition getShutdownFlag :: "IPCManager \<Rightarrow> bool" where
  "getShutdownFlag m = (case shared_data m of None \<Rightarrow> False | Some sd \<Rightarrow> shutdown_flag sd)"

text \<open>
  \<open>initializeSharedData\<close>: the region is zeroed (\<open>memset\<close>), then the master's pid, the
  start time and the two flags are set. A zeroed entry has pid 0 and status STARTING
  (the enumerator with value 0).
\<close>

definition zero_ProcessInfo :: ProcessInfo where
  "zero_ProcessInfo = \<lparr>pid = 0, worker_id = 0, status = STARTING, start_time = 0, last_heartbeat = 0\<rparr>"

definition zero_ProcessStatistics :: ProcessStatistics where
  "zero_ProcessStatistics = \<lparr>s_worker_id = 0, s_start_time = 0, messages_processed = 0,
     data_received = 0, data_sent = 0, errors = 0, last_update = 0\<rparr>"

definition initializeSharedData :: "IPCManager \<Rightarrow> int \<Rightarrow> int \<Rightarrow> IPCManager" where
  "initializeSharedData m getpid now =
     (case shared_data m of
        None \<Rightarrow> m
      | Some sd \<Rightarrow>
          m\<lparr>shared_data := Some \<lparr>workers = (\<lambda>i. zero_ProcessInfo), worker_count = 0,
                stats = zero_ProcessStatistics, shutdown_flag = False, reload_flag = False,
                master_pid = getpid, shm_start_time = now\<rparr>\<rparr>)"

section \<open>Control messages (ipc_manager.cpp, worker_process.cpp)\<close>

text \<open>
  The message as the two .cpp files use it: a type tag, the sender's and the receiver's
  pid, a timestamp, and a union \<open>data\<close> whose member is chosen by the sender.
\<close>

datatype MessageType = HEARTBEAT | STATUS_UPDATE | ERROR_REPORT | STATISTICS | SHUTDOWN | RELOAD | ANY

datatype msg_data =
    heartbeat_data int
  | status_data int int
  | error_data int string
  | stats_data ProcessStatistics

record IPCMessage =
  msg_type :: MessageType
  sender_pid :: int
  receiver_pid :: int
  timestamp :: int
  data :: msg_data

section \<open>The supervisor's message handlers (src/unnamed/part_005)\<close>

text \<open>
  \<open>handleHeartbeatMessage\<close> (called \<open>handleHeartbeat\<close> where the message loop dispatches):
  one call of \<open>updateWorkerStatus\<close> with the sender's pid and RUNNING; its result is dropped.
\<close>

definition handleHeartbeatMessage :: "IPCManager \<Rightarrow> bool \<Rightarrow> IPCMessage \<Rightarrow> int \<Rightarrow> IPCManager" where
  "handleHeartbeatMessage m semop_ok message now =
     snd (updateWorkerStatus m semop_ok (sender_pid message) RUNNING now)"

text \<open>
  \<open>updateGlobalStatistics\<close> (the handler the message loop calls \<open>handleStatistics\<close>): the
  snapshot is copied out of the message and handed to \<open>updateStatistics\<close>. The copy reads the
  union as a statistics record; a message that carries another member is not modelled
  (\<open>None\<close>).
\<close>

definition updateGlobalStatistics :: "IPCManager \<Rightarrow> bool \<Rightarrow> IPCMessage \<Rightarrow> int \<Rightarrow> IPCManager option" where
  "updateGlobalStatistics m semop_ok message now =
     (case data message of
        stats_data st \<Rightarrow> Some (snd (updateStatistics m semop_ok st now))
      | _ \<Rightarrow> None)"

section \<open>The supervisor (src/unnamed/part_005)\<close>

text \<open>
  \<open>workers_\<close> is the supervisor's own table, keyed by worker id: an association list in
  key order, as a \<open>std::map\<close> iterates. \<open>map_assign\<close> is \<open>workers_[k] = v\<close>; \<open>find_if\<close>
  with a predicate on the pid is \<open>List.find\<close>; \<open>update_first\<close> and \<open>erase_first\<close> act on the
  element that iterator points to.
\<close>

record WorkerInfo =
  w_pid :: int
  w_worker_id :: int
  w_start_time :: int
  restart_count :: int
  w_status :: ProcessStatus

record MasterProcess =
  master_running :: bool
  master_workers :: "(int \<times> WorkerInfo) list"

datatype signal = SIGTERM | SIGKILL | SIGHUP

fun map_assign :: "int \<Rightarrow> 'v \<Rightarrow> (int \<times> 'v) list \<Rightarrow> (int \<times> 'v) list" where
  "map_assign k v [] = [(k, v)]"
| "map_assign k v ((k', v') # xs) =
     (if k < k' then (k, v) # (k', v') # xs
      else if k = k' then (k, v) # xs
      else (k', v') # map_assign k v xs)"

fun update_first :: "('a \<Rightarrow> bool) \<Rightarrow> ('a \<Rightarrow> 'a) \<Rightarrow> 'a list \<Rightarrow> 'a list" where
  "update_first P f [] = []"
| "update_first P f (x # xs) = (if P x then f x # xs else x # update_first P f xs)"

fun erase_first :: "('a \<Rightarrow> bool) \<Rightarrow> 'a list \<Rightarrow> 'a list" where
  "erase_first P [] = []"
| "erase_first P (x # xs) = (if P x then xs else x # erase_first P xs)"

definition has_pid :: "int \<Rightarrow> int \<times> WorkerInfo \<Rightarrow> bool" where
  "has_pid p e = (w_pid (snd e) = p)"

definition bump_restart :: "int \<times> WorkerInfo \<Rightarrow> int \<times> WorkerInfo" where
  "bump_restart e = (fst e, (snd e)\<lparr>restart_count := restart_count (snd e) + 1\<rparr>)"

text \<open>
  \<open>createWorkerProcess(worker_id)\<close>. \<open>fork_result\<close> is what \<open>fork()\<close> returns. A negative
  value is the failure; 0 is the child, which runs the worker and exits without ever
  returning to the caller (\<open>None\<close>); a positive value is the child's pid in the parent,
  which stores a fresh record under the worker id and adds the pid to the shared table.
\<close>

definition createWorkerProcess ::
  "MasterProcess \<Rightarrow> IPCManager \<Rightarrow> bool \<Rightarrow> int \<Rightarrow> int \<Rightarrow> int
     \<Rightarrow> (bool \<times> MasterProcess \<times> IPCManager) option" where
  "createWorkerProcess mp ipc semop_ok fork_result wid now =
     (if fork_result < 0 then Some (False, mp, ipc)
      else if fork_result = 0 then None
      else
        let worker_info = \<lparr>w_pid = fork_result, w_worker_id = wid, w_start_time = now,
                           restart_count = 0, w_status = STARTING\<rparr>
        in Some (True,
                 mp\<lparr>master_workers := map_assign wid worker_info (master_workers mp)\<rparr>,
                 snd (addWorkerProcess ipc semop_ok fork_result wid now)))"

text \<open>
  \<open>handleDeadWorker\<close> (called \<open>handleChildExit\<close> at its call sites). The argument list is
  what the kernel answers during the call: each element is a value returned by
  \<open>waitpid(-1, &status, WNOHANG)\<close>, paired with what \<open>fork()\<close> returns if the restart branch
  is taken for it. The loop runs while the returned pid is positive; the end of the list
  stands for a return value that is not.
\<close>

fun handleDeadWorker ::
  "(int \<times> int) list \<Rightarrow> MasterProcess \<Rightarrow> IPCManager \<Rightarrow> bool \<Rightarrow> int
     \<Rightarrow> (MasterProcess \<times> IPCManager) option" where
  "handleDeadWorker [] mp ipc semop_ok now = Some (mp, ipc)"
| "handleDeadWorker ((p, fork_result) # rest) mp ipc semop_ok now =
     (if p > 0 then
        (case List.find (has_pid p) (master_workers mp) of
           None \<Rightarrow> handleDeadWorker rest mp ipc semop_ok now
         | Some it \<Rightarrow>
             (if master_running mp \<and> \<not> getShutdownFlag (snd (removeWorkerProcess ipc semop_ok p)) then
                (case createWorkerProcess
                        (mp\<lparr>master_workers := update_first (has_pid p) bump_restart (master_workers mp)\<rparr>)
                        (snd (removeWorkerProcess ipc semop_ok p)) semop_ok fork_result (fst it) now of
                   None \<Rightarrow> None
                 | Some r \<Rightarrow> handleDeadWorker rest (fst (snd r)) (snd (snd r)) semop_ok now)
              else
                handleDeadWorker rest
                  (mp\<lparr>master_workers := erase_first (has_pid p) (master_workers mp)\<rparr>)
                  (snd (removeWorkerProcess ipc semop_ok p)) semop_ok now))
      else Some (mp, ipc))"

text \<open>
  The liveness sweep, \<open>monitorWorkerProcesses\<close> (the second function of that name in the
  file, the one the main loop calls each tick). It reads the live entries under the lock
  (an empty vector when the lock is not taken; the call is written \<open>getAllProcesses()\<close>,
  and \<open>getWorkerProcesses\<close> is the body \<open>ipc_manager.cpp\<close> has for it) and returns the
  \<open>kill\<close> calls it makes, in order.
\<close>

fun sweep :: "int \<Rightarrow> ProcessInfo list \<Rightarrow> (int \<times> signal) list" where
  "sweep current_time [] = []"
| "sweep current_time (worker # rest) =
     (if current_time - last_heartbeat worker > HEARTBEAT_TIMEOUT
      then (pid worker, SIGTERM) # sweep current_time rest
      else sweep current_time rest)"

definition monitorWorkerProcesses :: "IPCManager \<Rightarrow> bool \<Rightarrow> int \<Rightarrow> (int \<times> signal) list" where
  "monitorWorkerProcesses ipc semop_ok current_time =
     sweep current_time (getWorkerProcesses ipc semop_ok)"

text \<open>
  \<open>gracefulShutdown\<close>. The loops \<open>for (worker : workers_) if (pid > 0) kill(pid, sig)\<close> are
  \<open>signal_all\<close>. The wait loop sleeps one second per iteration; \<open>env i\<close> is what the
  supervisor finds in iteration \<open>i\<close>: whether SIGCHLD has set \<open>g_child_exited\<close>, and the
  kernel's answers for the reaping that follows. \<open>zombies\<close> are the answers of the last
  reaping loop, which only logs.
\<close>

fun signal_all :: "signal \<Rightarrow> (int \<times> WorkerInfo) list \<Rightarrow> (int \<times> signal) list" where
  "signal_all sig [] = []"
| "signal_all sig (worker # rest) =
     (if w_pid (snd worker) > 0 then (w_pid (snd worker), sig) # signal_all sig rest
      else signal_all sig rest)"

definition max_wait_time :: nat where
  "max_wait_time = 30"

function wait_loop ::
  "(nat \<Rightarrow> bool \<times> (int \<times> int) list) \<Rightarrow> nat \<Rightarrow> MasterProcess \<Rightarrow> IPCManager \<Rightarrow> bool \<Rightarrow> int
     \<Rightarrow> (nat \<times> MasterProcess \<times> IPCManager) option" where
  "wait_loop env wait_time mp ipc semop_ok now =
     (if master_workers mp \<noteq> [] \<and> wait_time < max_wait_time then
        (if fst (env wait_time) then
           (case handleDeadWorker (snd (env wait_time)) mp ipc semop_ok now of
              None \<Rightarrow> None
            | Some r \<Rightarrow> wait_loop env (wait_time + 1) (fst r) (snd r) semop_ok now)
         else wait_loop env (wait_time + 1) mp ipc semop_ok now)
      else Some (wait_time, mp, ipc))"
  by pat_completeness auto
termination
  by (relation "measure (\<lambda>(env, wait_time, mp, ipc, semop_ok, now). max_wait_time - wait_time)") auto

declare wait_loop.simps [simp del]

record shutdown_run =
  sr_master :: MasterProcess
  sr_ipc :: IPCManager
  sr_kills :: "(int \<times> signal) list"
  sr_wait_time :: nat
  sr_slept :: nat
  sr_reaped :: nat

definition gracefulShutdown ::
  "(nat \<Rightarrow> bool \<times> (int \<times> int) list) \<Rightarrow> int list \<Rightarrow> MasterProcess \<Rightarrow> IPCManager \<Rightarrow> bool \<Rightarrow> int
     \<Rightarrow> shutdown_run option" where
  "gracefulShutdown env zombies mp ipc semop_ok now =
     (case wait_loop env 0 mp ipc semop_ok now of
        None \<Rightarrow> None
      | Some (wait_time, mp', ipc') \<Rightarrow>
          if master_workers mp' \<noteq> [] then
            Some \<lparr>sr_master = mp', sr_ipc = ipc',
                  sr_kills = signal_all SIGTERM (master_workers mp)
                             @ signal_all SIGKILL (master_workers mp'),
                  sr_wait_time = wait_time, sr_slept = wait_time + 2,
                  sr_reaped = length (takeWhile (\<lambda>p. p > 0) zombies)\<rparr>
          else
            Some \<lparr>sr_master = mp', sr_ipc = ipc',
                  sr_kills = signal_all SIGTERM (master_workers mp),
                  sr_wait_time = wait_time, sr_slept = wait_time, sr_reaped = 0\<rparr>)"

text \<open>
  \<open>IPCManager::cleanup\<close> as far as the manager's members go, and \<open>MasterProcess::stop\<close>:
  nothing when the supervisor is not running; otherwise \<open>running_\<close> is cleared, the shared
  shutdown flag is set, and \<open>gracefulShutdown\<close> and \<open>cleanup\<close> follow. Of the supervisor's
  \<open>cleanup\<close> only the call of \<open>IPCManager::cleanup\<close> acts on the modelled state (the rest
  unlinks the pid file and clears another member).
\<close>

definition cleanup :: "IPCManager \<Rightarrow> IPCManager" where
  "cleanup m =
     (if \<not> initialized m then m
      else m\<lparr>shared_data := None, msg_queue_id := -1, shm_id := -1, sem_id := -1,
             initialized := False\<rparr>)"

definition stop ::
  "(nat \<Rightarrow> bool \<times> (int \<times> int) list) \<Rightarrow> int list \<Rightarrow> MasterProcess \<Rightarrow> IPCManager \<Rightarrow> bool \<Rightarrow> int
     \<Rightarrow> shutdown_run option" where
  "stop env zombies mp ipc semop_ok now =
     (if \<not> master_running mp then
        Some \<lparr>sr_master = mp, sr_ipc = ipc, sr_kills = [], sr_wait_time = 0, sr_slept = 0,
              sr_reaped = 0\<rparr>
      else
        (case gracefulShutdown env zombies (mp\<lparr>master_running := False\<rparr>)
                (setShutdownFlag ipc True) semop_ok now of
           None \<Rightarrow> None
         | Some r \<Rightarrow> Some (r\<lparr>sr_ipc := cleanup (sr_ipc r)\<rparr>)))"

section \<open>Bringing up the IPC resources (ipc_manager.cpp)\<close>

text \<open>
  \<open>createMessageQueue\<close>, \<open>createSharedMemory\<close> and \<open>createSemaphores\<close> are sequences of
  system calls whose return values decide the control flow. The kernel's answers are
  inputs: \<open>get_answers\<close> holds, for one resource, what \<open>ftok\<close> returns and what each of the
  three \<open>get\<close> calls the function can make returns (\<open>-1\<close> is failure), with the \<open>errno\<close>
  of the first. Besides its result each function returns the system calls it made, in
  order. \<open>SEM_COUNT\<close> is not among the constants of types.h and is a parameter.
\<close>

datatype errno = EEXIST | EAGAIN | ENOMSG | EINVAL | EACCES | ENOSPC | EIDRM

datatype resource = MessageQueue | SharedMemory | Semaphores

datatype get_flags = CREAT_EXCL | NO_FLAGS | CREAT

datatype syscall =
    sys_ftok resource
  | sys_get resource get_flags
  | sys_rmid resource int
  | sys_shmat int
  | sys_setval int nat

record get_answers =
  ftok_key :: int
  get_excl :: int
  get_excl_errno :: errno
  get_existing :: int
  get_creat :: int

definition createMessageQueue :: "IPCManager \<Rightarrow> get_answers \<Rightarrow> bool \<times> IPCManager \<times> syscall list" where
  "createMessageQueue m k =
     (if ftok_key k = -1 then (False, m, [sys_ftok MessageQueue])
      else if get_excl k \<noteq> -1 then
        (True, m\<lparr>msg_queue_id := get_excl k\<rparr>,
         [sys_ftok MessageQueue, sys_get MessageQueue CREAT_EXCL])
      else if get_excl_errno k = EEXIST then
        (get_creat k \<noteq> -1, m\<lparr>msg_queue_id := get_creat k\<rparr>,
         [sys_ftok MessageQueue, sys_get MessageQueue CREAT_EXCL, sys_get MessageQueue NO_FLAGS]
         @ (if get_existing k \<noteq> -1 then [sys_rmid MessageQueue (get_existing k)] else [])
         @ [sys_get MessageQueue CREAT])
      else
        (False, m\<lparr>msg_queue_id := -1\<rparr>,
         [sys_ftok MessageQueue, sys_get MessageQueue CREAT_EXCL]))"

text \<open>
  \<open>createSharedMemory\<close>: as above, then \<open>shmat\<close>. \<open>attached\<close> is the region \<open>shmat\<close> maps, or
  \<open>None\<close> when it fails (the member then holds the invalid pointer \<open>-1\<close>, which
  \<open>cleanup\<close> treats like no region).
\<close>

definition createSharedMemory ::
  "IPCManager \<Rightarrow> get_answers \<Rightarrow> SharedMemoryData option \<Rightarrow> bool \<times> IPCManager \<times> syscall list" where
  "createSharedMemory m k attached =
     (if ftok_key k = -1 then (False, m, [sys_ftok SharedMemory])
      else if get_excl k \<noteq> -1 then
        (attached \<noteq> None, m\<lparr>shm_id := get_excl k, shared_data := attached\<rparr>,
         [sys_ftok SharedMemory, sys_get SharedMemory CREAT_EXCL, sys_shmat (get_excl k)])
      else if get_excl_errno k = EEXIST then
        (if get_creat k = -1 then
           (False, m\<lparr>shm_id := -1\<rparr>,
            [sys_ftok SharedMemory, sys_get SharedMemory CREAT_EXCL, sys_get SharedMemory NO_FLAGS]
            @ (if get_existing k \<noteq> -1 then [sys_rmid SharedMemory (get_existing k)] else [])
            @ [sys_get SharedMemory CREAT])
         else
           (attached \<noteq> None, m\<lparr>shm_id := get_creat k, shared_data := attached\<rparr>,
            [sys_ftok SharedMemory, sys_get SharedMemory CREAT_EXCL, sys_get SharedMemory NO_FLAGS]
            @ (if get_existing k \<noteq> -1 then [sys_rmid SharedMemory (get_existing k)] else [])
            @ [sys_get SharedMemory CREAT, sys_shmat (get_creat k)]))
      else
        (False, m\<lparr>shm_id := -1\<rparr>,
         [sys_ftok SharedMemory, sys_get SharedMemory CREAT_EXCL]))"

text \<open>
  The initialisation loop of \<open>createSemaphores\<close>: \<open>semctl(sem_id_, i, SETVAL, 1)\<close> for each
  index, returning false at the first failure. \<open>setval i\<close> is the kernel's answer for
  index \<open>i\<close>.
\<close>

fun init_semaphores :: "(nat \<Rightarrow> int) \<Rightarrow> int \<Rightarrow> nat list \<Rightarrow> bool \<times> syscall list" where
  "init_semaphores setval sid [] = (True, [])"
| "init_semaphores setval sid (i # rest) =
     (if setval i = -1 then (False, [sys_setval sid i])
      else (fst (init_semaphores setval sid rest),
            sys_setval sid i # snd (init_semaphores setval sid rest)))"

definition createSemaphores ::
  "IPCManager \<Rightarrow> get_answers \<Rightarrow> nat \<Rightarrow> (nat \<Rightarrow> int) \<Rightarrow> bool \<times> IPCManager \<times> syscall list" where
  "createSemaphores m k SEM_COUNT setval =
     (if ftok_key k = -1 then (False, m, [sys_ftok Semaphores])
      else if get_excl k \<noteq> -1 then
        (fst (init_semaphores setval (get_excl k) [0..<SEM_COUNT]),
         m\<lparr>sem_id := get_excl k\<rparr>,
         [sys_ftok Semaphores, sys_get Semaphores CREAT_EXCL]
         @ snd (init_semaphores setval (get_excl k) [0..<SEM_COUNT]))
      else if get_excl_errno k = EEXIST then
        (if get_creat k = -1 then
           (False, m\<lparr>sem_id := -1\<rparr>,
            [sys_ftok Semaphores, sys_get Semaphores CREAT_EXCL, sys_get Semaphores NO_FLAGS]
            @ (if get_existing k \<noteq> -1 then [sys_rmid Semaphores (get_existing k)] else [])
            @ [sys_get Semaphores CREAT])
         else
           (fst (init_semaphores setval (get_creat k) [0..<SEM_COUNT]),
            m\<lparr>sem_id := get_creat k\<rparr>,
            [sys_ftok Semaphores, sys_get Semaphores CREAT_EXCL, sys_get Semaphores NO_FLAGS]
            @ (if get_existing k \<noteq> -1 then [sys_rmid Semaphores (get_existing k)] else [])
            @ [sys_get Semaphores CREAT]
            @ snd (init_semaphores setval (get_creat k) [0..<SEM_COUNT])))
      else
        (False, m\<lparr>sem_id := -1\<rparr>,
         [sys_ftok Semaphores, sys_get Semaphores CREAT_EXCL]))"

section \<open>The message channel (ipc_manager.cpp)\<close>

text \<open>
  The queue is a kernel object. Its model holds the queued messages, how many messages fit
  (\<open>msg_qbytes\<close> over the fixed message size), and \<open>q_fault\<close>: the error the kernel reports
  for any call on the identifier, if there is one (removed, no permission). \<open>msgsnd\<close> and
  \<open>msgrcv\<close> are the two system calls as the code uses them, with the flag IPC_NOWAIT as
  their last argument: without the flag a full queue suspends the sender and a queue with
  no wanted message suspends the receiver; with it the call fails at once with EAGAIN or
  ENOMSG.
\<close>

datatype LogLevel = TRACE | DBG | INFO | WARN | ERROR | CRITICAL

type_synonym log_line = "LogLevel \<times> string"

record msg_queue =
  q_msgs :: "IPCMessage list"
  q_capacity :: nat
  q_fault :: "errno option"

datatype snd_result = Sent msg_queue | SndFailed errno | SndBlocked

datatype rcv_result = Received IPCMessage msg_queue | RcvFailed errno | RcvBlocked

definition msgsnd :: "msg_queue \<Rightarrow> IPCMessage \<Rightarrow> bool \<Rightarrow> snd_result" where
  "msgsnd q message nowait =
     (case q_fault q of
        Some e \<Rightarrow> SndFailed e
      | None \<Rightarrow>
          if length (q_msgs q) < q_capacity q then Sent (q\<lparr>q_msgs := q_msgs q @ [message]\<rparr>)
          else if nowait then SndFailed EAGAIN
          else SndBlocked)"

definition wanted :: "MessageType \<Rightarrow> IPCMessage \<Rightarrow> bool" where
  "wanted ty message = (if ty = ANY then True else msg_type message = ty)"

definition msgrcv :: "msg_queue \<Rightarrow> MessageType \<Rightarrow> bool \<Rightarrow> rcv_result" where
  "msgrcv q ty nowait =
     (case q_fault q of
        Some e \<Rightarrow> RcvFailed e
      | None \<Rightarrow>
          (case List.find (wanted ty) (q_msgs q) of
             Some message \<Rightarrow> Received message (q\<lparr>q_msgs := erase_first (wanted ty) (q_msgs q)\<rparr>)
           | None \<Rightarrow> if nowait then RcvFailed ENOMSG else RcvBlocked))"

text \<open>
  \<open>sendMessage\<close> and \<open>receiveMessage\<close>. \<open>None\<close> is a call that does not return because the
  system call is suspended. Of the log lines only those of the sending side are kept.
\<close>

definition sendMessage ::
  "IPCManager \<Rightarrow> msg_queue \<Rightarrow> IPCMessage \<Rightarrow> (bool \<times> msg_queue \<times> log_line list) option" where
  "sendMessage m q message =
     (if \<not> initialized m \<or> msg_queue_id m = -1 then
        Some (False, q, [(ERROR, ''IPC manager not initialized or message queue not available'')])
      else
        (case msgsnd q message True of
           SndBlocked \<Rightarrow> None
         | SndFailed e \<Rightarrow>
             Some (False, q, if e \<noteq> EAGAIN then [(ERROR, ''Failed to send message: {}'')] else [])
         | Sent q' \<Rightarrow> Some (True, q', [(TRACE, ''Message sent: type={}, from={}, to={}'')])))"

definition receiveMessage ::
  "IPCManager \<Rightarrow> msg_queue \<Rightarrow> MessageType \<Rightarrow> bool \<Rightarrow> (IPCMessage option \<times> msg_queue) option" where
  "receiveMessage m q ty blocking =
     (if \<not> initialized m \<or> msg_queue_id m = -1 then Some (None, q)
      else
        (case msgrcv q ty (\<not> blocking) of
           RcvBlocked \<Rightarrow> None
         | RcvFailed e \<Rightarrow> Some (None, q)
         | Received message q' \<Rightarrow> Some (Some message, q')))"

text \<open>A send goes through exactly in these states of the manager and the queue.\<close>

definition deliverable :: "IPCManager \<Rightarrow> msg_queue \<Rightarrow> bool" where
  "deliverable m q =
     (initialized m \<and> msg_queue_id m \<noteq> -1 \<and> q_fault q = None \<and> length (q_msgs q) < q_capacity q)"

section \<open>The worker runtime (worker_process.cpp)\<close>

text \<open>
  \<open>MarketData\<close>: the worker runtime reads the category of a record and otherwise only
  stores and forwards it; \<open>payload\<close> stands for the remaining fields. \<open>data_buffers_\<close> maps
  a category to its buffer and is iterated in the order of the enumeration.
  \<open>db_result\<close> is what \<open>saveMarketDataBatch\<close> does: return true, return false, or throw.
\<close>

datatype MarketDataType = TICK | KLINE | DEPTH | INDEX | NEWS

record MarketData =
  symbol :: string
  data_type :: MarketDataType
  payload :: nat

datatype db_result = Saved | Rejected | Threw

record WorkerProcess =
  wp_worker_id :: int
  wp_running :: bool
  wp_sdk :: bool
  wp_db_manager :: bool
  wp_last_heartbeat_time :: int
  wp_data_buffers :: "MarketDataType \<Rightarrow> MarketData list option"
  wp_statistics :: ProcessStatistics

text \<open>
  What a worker function reads from outside the object: its pid and its parent's, the wall
  clock \<open>time(nullptr)\<close>, the configured batch size and processing interval (milliseconds),
  \<open>sizeof(MarketData)\<close>, the size of the error-message field of a message, and the sink:
  \<open>e_saveMarketDataBatch env i batch\<close> is the outcome of the \<open>i\<close>-th call, made with
  \<open>batch\<close>.
\<close>

record worker_env =
  e_getpid :: int
  e_getppid :: int
  e_time :: int
  e_batch_size :: int
  e_process_interval :: int
  e_sizeof_MarketData :: nat
  e_error_message_size :: nat
  e_saveMarketDataBatch :: "nat \<Rightarrow> MarketData list \<Rightarrow> db_result"

text \<open>
  The state a worker function acts on: the object, the IPC manager with the attached
  region, the queue, the batches handed to the sink so far, and the log lines of the
  sending side.
\<close>

record worker_world =
  ww_self :: WorkerProcess
  ww_ipc :: IPCManager
  ww_queue :: msg_queue
  ww_sink :: "MarketData list list"
  ww_log :: "log_line list"

fun status_int :: "ProcessStatus \<Rightarrow> int" where
  "status_int STARTING = 0"
| "status_int RUNNING = 1"
| "status_int STOPPING = 2"
| "status_int STOPPED = 3"
| "status_int CRASHED = 4"

text \<open>
  The four senders end alike: \<open>if (!sendMessage(message)) LOG_WARN(...)\<close>, and go on.
\<close>

definition send_or_warn :: "IPCMessage \<Rightarrow> string \<Rightarrow> worker_world \<Rightarrow> worker_world option" where
  "send_or_warn message warning w =
     (case sendMessage (ww_ipc w) (ww_queue w) message of
        None \<Rightarrow> None
      | Some r \<Rightarrow>
          Some (w\<lparr>ww_queue := fst (snd r),
                  ww_log := ww_log w @ snd (snd r) @ (if \<not> fst r then [(WARN, warning)] else [])\<rparr>))"

definition heartbeat_message :: "worker_env \<Rightarrow> WorkerProcess \<Rightarrow> IPCMessage" where
  "heartbeat_message env wp =
     \<lparr>msg_type = HEARTBEAT, sender_pid = e_getpid env, receiver_pid = e_getppid env,
      timestamp = e_time env, data = heartbeat_data (wp_worker_id wp)\<rparr>"

definition sendHeartbeat :: "worker_env \<Rightarrow> worker_world \<Rightarrow> worker_world option" where
  "sendHeartbeat env w =
     (case send_or_warn (heartbeat_message env (ww_self w))
             ''Failed to send heartbeat for worker {}'' w of
        None \<Rightarrow> None
      | Some w' \<Rightarrow> Some (w'\<lparr>ww_self := (ww_self w')\<lparr>wp_last_heartbeat_time := e_time env\<rparr>\<rparr>))"

definition sendStatusUpdate :: "worker_env \<Rightarrow> ProcessStatus \<Rightarrow> worker_world \<Rightarrow> worker_world option" where
  "sendStatusUpdate env st w =
     send_or_warn
       \<lparr>msg_type = STATUS_UPDATE, sender_pid = e_getpid env, receiver_pid = e_getppid env,
        timestamp = e_time env, data = status_data (wp_worker_id (ww_self w)) (status_int st)\<rparr>
       ''Failed to send status update for worker {}'' w"

definition sendErrorReport :: "worker_env \<Rightarrow> string \<Rightarrow> worker_world \<Rightarrow> worker_world option" where
  "sendErrorReport env error_message w =
     send_or_warn
       \<lparr>msg_type = ERROR_REPORT, sender_pid = e_getpid env, receiver_pid = e_getppid env,
        timestamp = e_time env,
        data = error_data (wp_worker_id (ww_self w))
                 (take (e_error_message_size env - 1) error_message)\<rparr>
       ''Failed to send error report for worker {}'' w"

definition sendStatistics :: "worker_env \<Rightarrow> worker_world \<Rightarrow> worker_world option" where
  "sendStatistics env w =
     send_or_warn
       \<lparr>msg_type = STATISTICS, sender_pid = e_getpid env, receiver_pid = e_getppid env,
        timestamp = e_time env, data = stats_data (wp_statistics (ww_self w))\<rparr>
       ''Failed to send statistics for worker {}'' w"

text \<open>
  Buffers and flushing. \<open>flushDataBuffer\<close> does nothing on a missing or empty buffer.
  Otherwise, with a database manager, it hands the buffer to the sink: on true it adds the
  bytes to \<open>data_sent\<close>, on false it counts an error, and in both cases clears the buffer;
  when the sink throws, the handler counts an error and the buffer stays. Without a
  database manager it counts an error and clears the buffer.
\<close>

definition clear_buffer :: "MarketDataType \<Rightarrow> WorkerProcess \<Rightarrow> WorkerProcess" where
  "clear_buffer dt wp = wp\<lparr>wp_data_buffers := (wp_data_buffers wp)(dt \<mapsto> [])\<rparr>"

definition count_error :: "WorkerProcess \<Rightarrow> WorkerProcess" where
  "count_error wp =
     wp\<lparr>wp_statistics := (wp_statistics wp)\<lparr>errors := errors (wp_statistics wp) + 1\<rparr>\<rparr>"

definition count_sent :: "nat \<Rightarrow> WorkerProcess \<Rightarrow> WorkerProcess" where
  "count_sent n wp =
     wp\<lparr>wp_statistics := (wp_statistics wp)\<lparr>data_sent := data_sent (wp_statistics wp) + n\<rparr>\<rparr>"

definition flushDataBuffer :: "worker_env \<Rightarrow> MarketDataType \<Rightarrow> worker_world \<Rightarrow> worker_world" where
  "flushDataBuffer env dt w =
     (case wp_data_buffers (ww_self w) dt of
        None \<Rightarrow> w
      | Some buf \<Rightarrow>
          if buf = [] then w
          else if wp_db_manager (ww_self w) then
            (case e_saveMarketDataBatch env (length (ww_sink w)) buf of
               Saved \<Rightarrow>
                 w\<lparr>ww_sink := ww_sink w @ [buf],
                   ww_self := clear_buffer dt
                     (count_sent (length buf * e_sizeof_MarketData env) (ww_self w))\<rparr>
             | Rejected \<Rightarrow>
                 w\<lparr>ww_sink := ww_sink w @ [buf],
                   ww_self := clear_buffer dt (count_error (ww_self w))\<rparr>
             | Threw \<Rightarrow>
                 w\<lparr>ww_sink := ww_sink w @ [buf], ww_self := count_error (ww_self w)\<rparr>)
          else w\<lparr>ww_self := clear_buffer dt (count_error (ww_self w))\<rparr>)"

definition all_types :: "MarketDataType list" where
  "all_types = [TICK, KLINE, DEPTH, INDEX, NEWS]"

fun flush_each :: "worker_env \<Rightarrow> MarketDataType list \<Rightarrow> worker_world \<Rightarrow> worker_world" where
  "flush_each env [] w = w"
| "flush_each env (dt # rest) w =
     (case wp_data_buffers (ww_self w) dt of
        None \<Rightarrow> flush_each env rest w
      | Some buf \<Rightarrow>
          if buf \<noteq> [] then flush_each env rest (flushDataBuffer env dt w)
          else flush_each env rest w)"

definition flushDataBuffers :: "worker_env \<Rightarrow> worker_world \<Rightarrow> worker_world" where
  "flushDataBuffers env w = flush_each env all_types w"

text \<open>
  \<open>onMarketData\<close>: the counters are updated, the record is appended to the buffer of its
  category if there is one, and the buffer is flushed when
  \<open>size() >= config.market_data.batch_size\<close>. The comparison is between a \<open>size_t\<close> and
  an \<open>int\<close>, so the batch size is converted to an unsigned 64-bit value first.
\<close>

definition onMarketData :: "worker_env \<Rightarrow> MarketData \<Rightarrow> worker_world \<Rightarrow> worker_world" where
  "onMarketData env d w =
     (let st = wp_statistics (ww_self w);
          wp1 = (ww_self w)\<lparr>wp_statistics :=
                  st\<lparr>messages_processed := messages_processed st + 1,
                     data_received := data_received st + e_sizeof_MarketData env,
                     last_update := e_time env\<rparr>\<rparr>
      in case wp_data_buffers wp1 (data_type d) of
           None \<Rightarrow> w\<lparr>ww_self := wp1\<rparr>
         | Some buf \<Rightarrow>
             if e_batch_size env mod 2 ^ 64 \<le> int (length (buf @ [d]))
             then flushDataBuffer env (data_type d)
                    (w\<lparr>ww_self := wp1\<lparr>wp_data_buffers := (wp_data_buffers wp1)(data_type d \<mapsto> buf @ [d])\<rparr>\<rparr>)
             else w\<lparr>ww_self := wp1\<lparr>wp_data_buffers := (wp_data_buffers wp1)(data_type d \<mapsto> buf @ [d])\<rparr>\<rparr>)"

text \<open>
  \<open>handleReload\<close> rereads the configuration and renews the SDK subscriptions;
  it leaves the object's buffers, counters and flags, the queue and the table alone.
  \<open>handleReconnection\<close> does nothing without an SDK; otherwise it reconnects and, when
  that fails (\<open>reconnect_ok\<close> is the outcome of \<open>connectToMarketData() && subscribeMarketData()\<close>),
  sends an error report.
\<close>

definition handleReload :: "worker_world \<Rightarrow> worker_world" where
  "handleReload w = w"

definition handleReconnection :: "worker_env \<Rightarrow> bool \<Rightarrow> worker_world \<Rightarrow> worker_world option" where
  "handleReconnection env reconnect_ok w =
     (if \<not> wp_sdk (ww_self w) then Some w
      else if reconnect_ok then Some w
      else sendErrorReport env ''Reconnection failed'' w)"

text \<open>
  \<open>processIPCMessages\<close>: receive (any type, not blocking) until nothing is received; a
  SHUTDOWN message clears \<open>running_\<close>, a RELOAD message reloads.
\<close>

definition handle_control :: "IPCMessage \<Rightarrow> worker_world \<Rightarrow> worker_world" where
  "handle_control message w =
     (case msg_type message of
        SHUTDOWN \<Rightarrow> w\<lparr>ww_self := (ww_self w)\<lparr>wp_running := False\<rparr>\<rparr>
      | RELOAD \<Rightarrow> handleReload w
      | _ \<Rightarrow> w)"

function processIPCMessages :: "worker_world \<Rightarrow> worker_world option" where
  "processIPCMessages w =
     (case receiveMessage (ww_ipc w) (ww_queue w) ANY False of
        None \<Rightarrow> None
      | Some r \<Rightarrow>
          (case fst r of
             None \<Rightarrow> Some w
           | Some message \<Rightarrow> processIPCMessages (handle_control message (w\<lparr>ww_queue := snd r\<rparr>))))"
  by pat_completeness auto
termination
proof (relation "measure (\<lambda>w. length (q_msgs (ww_queue w)))")
  show "wf (measure (\<lambda>w. length (q_msgs (ww_queue w))))"
    by simp
next
  fix w :: worker_world and r :: "IPCMessage option \<times> msg_queue" and message :: IPCMessage
  assume rcv: "receiveMessage (ww_ipc w) (ww_queue w) ANY False = Some r"
    and got: "fst r = Some message"
  have shorter: "length (erase_first P xs) < length xs" if "List.find P xs = Some x"
    for P :: "IPCMessage \<Rightarrow> bool" and xs x
    using that by (induction xs) (auto split: if_splits)
  from rcv got have "length (q_msgs (snd r)) < length (q_msgs (ww_queue w))"
    by (auto simp: receiveMessage_def msgrcv_def shorter
             split: if_splits option.splits rcv_result.splits)
  moreover have "ww_queue (handle_control message (w\<lparr>ww_queue := snd r\<rparr>)) = snd r"
    by (simp add: handle_control_def handleReload_def split: MessageType.splits)
  ultimately show "(handle_control message (w\<lparr>ww_queue := snd r\<rparr>), w)
      \<in> measure (\<lambda>w. length (q_msgs (ww_queue w)))"
    by simp
qed

declare processIPCMessages.simps [simp del]

text \<open>
  One pass through the body of the loop of \<open>mainLoop\<close>. \<open>tick\<close> is what the pass finds:
  the steady clock (nanoseconds), the two signal flags, whether the SDK reports
  CONNECTED, and how a reconnection would end. \<open>loop_locals\<close> are the three time stamps
  the loop keeps. The body either breaks out of the loop or completes.
\<close>

record tick =
  t_now :: int
  t_shutdown_requested :: bool
  t_reload_requested :: bool
  t_sdk_connected :: bool
  t_reconnect_ok :: bool

record loop_locals =
  last_heartbeat_at :: int
  last_flush :: int
  last_stats :: int

datatype 'a step = Break 'a | Continue 'a

definition heartbeat_interval :: int where
  "heartbeat_interval = 30 * 10 ^ 9"

definition stats_interval :: int where
  "stats_interval = 60 * 10 ^ 9"

definition flush_interval :: "worker_env \<Rightarrow> int" where
  "flush_interval env = e_process_interval env * 10 ^ 6"

definition heartbeat_step ::
  "worker_env \<Rightarrow> tick \<Rightarrow> loop_locals \<times> worker_world \<Rightarrow> (loop_locals \<times> worker_world) option" where
  "heartbeat_step env tk s =
     (if heartbeat_interval \<le> t_now tk - last_heartbeat_at (fst s) then
        (case sendHeartbeat env (snd s) of
           None \<Rightarrow> None
         | Some w' \<Rightarrow> Some ((fst s)\<lparr>last_heartbeat_at := t_now tk\<rparr>, w'))
      else Some s)"

definition flush_step ::
  "worker_env \<Rightarrow> tick \<Rightarrow> loop_locals \<times> worker_world \<Rightarrow> loop_locals \<times> worker_world" where
  "flush_step env tk s =
     (if flush_interval env \<le> t_now tk - last_flush (fst s) then
        ((fst s)\<lparr>last_flush := t_now tk\<rparr>, flushDataBuffers env (snd s))
      else s)"

definition stats_step ::
  "worker_env \<Rightarrow> tick \<Rightarrow> loop_locals \<times> worker_world \<Rightarrow> (loop_locals \<times> worker_world) option" where
  "stats_step env tk s =
     (if stats_interval \<le> t_now tk - last_stats (fst s) then
        (case sendStatistics env (snd s) of
           None \<Rightarrow> None
         | Some w' \<Rightarrow> Some ((fst s)\<lparr>last_stats := t_now tk\<rparr>, w'))
      else Some s)"

definition reconnect_step ::
  "worker_env \<Rightarrow> tick \<Rightarrow> loop_locals \<times> worker_world \<Rightarrow> (loop_locals \<times> worker_world) option" where
  "reconnect_step env tk s =
     (if wp_sdk (ww_self (snd s)) \<and> \<not> t_sdk_connected tk then
        (case handleReconnection env (t_reconnect_ok tk) (snd s) of
           None \<Rightarrow> None
         | Some w' \<Rightarrow> Some (fst s, w'))
      else Some s)"

definition mainLoop_body ::
  "worker_env \<Rightarrow> tick \<Rightarrow> loop_locals \<times> worker_world
     \<Rightarrow> (loop_locals \<times> worker_world) step option" where
  "mainLoop_body env tk s =
     (if t_shutdown_requested tk then Some (Break s)
      else if getShutdownFlag
                (ww_ipc (if t_reload_requested tk then handleReload (snd s) else snd s))
      then Some (Break (fst s, if t_reload_requested tk then handleReload (snd s) else snd s))
      else
        (case processIPCMessages (if t_reload_requested tk then handleReload (snd s) else snd s) of
           None \<Rightarrow> None
         | Some w1 \<Rightarrow>
             (case heartbeat_step env tk (fst s, w1) of
                None \<Rightarrow> None
              | Some s2 \<Rightarrow>
                  (case stats_step env tk (flush_step env tk s2) of
                     None \<Rightarrow> None
                   | Some s4 \<Rightarrow>
                       (case reconnect_step env tk s4 of
                          None \<Rightarrow> None
                        | Some s5 \<Rightarrow> Some (Continue s5))))))"

text \<open>The last-heartbeat time the shared table holds for a pid, if the pid has an entry.\<close>

definition table_heartbeat :: "IPCManager \<Rightarrow> int \<Rightarrow> int option" where
  "table_heartbeat m p =
     (case shared_data m of
        None \<Rightarrow> None
      | Some sd \<Rightarrow> map_option (\<lambda>i. last_heartbeat (workers sd i)) (find_pid sd p))"

text \<open>The non-empty buffers, in the order \<open>flushDataBuffers\<close> visits them.\<close>

definition pending :: "WorkerProcess \<Rightarrow> MarketData list list" where
  "pending wp = filter (\<lambda>buf. buf \<noteq> []) (List.map_filter (wp_data_buffers wp) all_types)"

section \<open>Example states\<close>

definition ipc_fresh :: IPCManager where
  "ipc_fresh = initializeSharedData
     \<lparr>is_master = True, initialized = True, msg_queue_id = 0, shm_id = 0, sem_id = 0,
      shared_data = Some \<lparr>workers = (\<lambda>i. zero_ProcessInfo), worker_count = 0,
        stats = zero_ProcessStatistics, shutdown_flag = False, reload_flag = False,
        master_pid = 0, shm_start_time = 0\<rparr>\<rparr> 1 0"

definition ipc_full :: IPCManager where
  "ipc_full = ipc_fresh\<lparr>shared_data := Some \<lparr>workers = (\<lambda>i. zero_ProcessInfo\<lparr>pid := 100 + int i\<rparr>),
     worker_count = 64, stats = zero_ProcessStatistics, shutdown_flag = False,
     reload_flag = False, master_pid = 1, shm_start_time = 0\<rparr>\<rparr>"

text \<open>One worker (pid 100, slot 1), added at time 0 and since moved to STOPPING.\<close>

definition ipc_one :: IPCManager where
  "ipc_one = snd (updateWorkerStatus (snd (addWorkerProcess ipc_fresh True 100 1 0)) True 100 STOPPING 0)"

definition snapshot :: "int \<Rightarrow> nat \<Rightarrow> ProcessStatistics" where
  "snapshot wid n = \<lparr>s_worker_id = wid, s_start_time = 0, messages_processed = n,
     data_received = n, data_sent = n, errors = n, last_update = 0\<rparr>"

definition stats_message :: "int \<Rightarrow> ProcessStatistics \<Rightarrow> IPCMessage" where
  "stats_message p st = \<lparr>msg_type = STATISTICS, sender_pid = p, receiver_pid = 1,
     timestamp = 0, data = stats_data st\<rparr>"

text \<open>
  A supervisor that runs one worker: slot 1, pid 100, never restarted. This is the state
  \<open>createWorkerProcess\<close> leaves when \<open>fork\<close> returns 100 for worker 1 at time 0.
\<close>

definition master_one :: MasterProcess where
  "master_one = \<lparr>master_running = True,
     master_workers = [(1, \<lparr>w_pid = 100, w_worker_id = 1, w_start_time = 0,
                            restart_count = 0, w_status = STARTING\<rparr>)]\<rparr>"

definition ipc_started :: IPCManager where
  "ipc_started = snd (addWorkerProcess ipc_fresh True 100 1 0)"

text \<open>Two workers in the shared table at time 100: pid 100 last heard of at 30, pid 101 at 50.\<close>

definition ipc_two :: IPCManager where
  "ipc_two = ipc_fresh\<lparr>shared_data := Some \<lparr>workers = (\<lambda>i. zero_ProcessInfo)
       (0 := \<lparr>pid = 100, worker_id = 1, status = RUNNING, start_time = 0, last_heartbeat = 30\<rparr>,
        1 := \<lparr>pid = 101, worker_id = 2, status = RUNNING, start_time = 0, last_heartbeat = 50\<rparr>),
     worker_count = 2, stats = zero_ProcessStatistics, shutdown_flag = False,
     reload_flag = False, master_pid = 1, shm_start_time = 0\<rparr>\<rparr>"

text \<open>A worker that never exits: SIGCHLD is never seen during the wait.\<close>

definition wedged :: "nat \<Rightarrow> bool \<times> (int \<times> int) list" where
  "wedged i = (False, [])"

text \<open>A worker that exits in the first second of the wait.\<close>

definition responsive :: "nat \<Rightarrow> bool \<times> (int \<times> int) list" where
  "responsive i = (if i = 0 then (True, [(100, 0)]) else (False, []))"

text \<open>
  The kernel's answers when a resource with the key is left over from an earlier run: the
  exclusive creation fails with EEXIST, the existing resource has id 7, and the creation
  after its removal yields id 8.
\<close>

definition leftover :: get_answers where
  "leftover = \<lparr>ftok_key = 1234, get_excl = -1, get_excl_errno = EEXIST, get_existing = 7,
     get_creat = 8\<rparr>"

definition ipc_blank :: IPCManager where
  "ipc_blank = \<lparr>is_master = True, initialized = False, msg_queue_id = -1, shm_id = -1,
     sem_id = -1, shared_data = None\<rparr>"

text \<open>
  A worker (slot 1, pid 100, child of pid 1) with a TICK buffer, attached to the table
  that holds its own entry; a queue with room for ten messages, and one that is full.
\<close>

definition worker_one :: WorkerProcess where
  "worker_one = \<lparr>wp_worker_id = 1, wp_running = True, wp_sdk = True, wp_db_manager = True,
     wp_last_heartbeat_time = 0, wp_data_buffers = Map.empty(TICK \<mapsto> []),
     wp_statistics = snapshot 1 0\<rparr>"

definition env_one :: worker_env where
  "env_one = \<lparr>e_getpid = 100, e_getppid = 1, e_time = 100, e_batch_size = 2,
     e_process_interval = 1000, e_sizeof_MarketData = 96, e_error_message_size = 256,
     e_saveMarketDataBatch = (\<lambda>i batch. Saved)\<rparr>"

definition queue_empty :: msg_queue where
  "queue_empty = \<lparr>q_msgs = [], q_capacity = 10, q_fault = None\<rparr>"

definition queue_full :: msg_queue where
  "queue_full = \<lparr>q_msgs = [stats_message 101 (snapshot 2 3)], q_capacity = 1, q_fault = None\<rparr>"

definition world_one :: worker_world where
  "world_one = \<lparr>ww_self = worker_one, ww_ipc = ipc_started, ww_queue = queue_empty,
     ww_sink = [], ww_log = []\<rparr>"

text \<open>
  A pass through the loop 31 seconds after the loop started, with nothing pending, and
  the state it leaves: the heartbeat is in the queue and the worker's own time stamp is
  100, the wall-clock time of the pass.
\<close>

definition tick_due :: tick where
  "tick_due = \<lparr>t_now = 31000000000, t_shutdown_requested = False, t_reload_requested = False,
     t_sdk_connected = True, t_reconnect_ok = True\<rparr>"

definition locals_zero :: loop_locals where
  "locals_zero = \<lparr>last_heartbeat_at = 0, last_flush = 0, last_stats = 0\<rparr>"

definition locals_due :: loop_locals where
  "locals_due = \<lparr>last_heartbeat_at = 31000000000, last_flush = 31000000000, last_stats = 0\<rparr>"

definition world_after :: worker_world where
  "world_after = world_one\<lparr>
     ww_self := worker_one\<lparr>wp_last_heartbeat_time := 100\<rparr>,
     ww_queue := queue_empty\<lparr>q_msgs := [heartbeat_message env_one worker_one]\<rparr>,
     ww_log := [(TRACE, ''Message sent: type={}, from={}, to={}'')]\<rparr>"

text \<open>Two TICK records; the batch size of \<open>env_one\<close> is 2.\<close>

definition tick_a :: MarketData where
  "tick_a = \<lparr>symbol = ''600000'', data_type = TICK, payload = 1\<rparr>"

definition tick_b :: MarketData where
  "tick_b = \<lparr>symbol = ''600000'', data_type = TICK, payload = 2\<rparr>"

section \<open>Properties of the shared table\<close>

lemma lock_shared_data_update:
  "lockSharedMemory (m\<lparr>shared_data := x\<rparr>) semop_ok = lockSharedMemory m semop_ok"
  by (simp add: lockSharedMemory_def)

lemma live_add:
  "live (sd\<lparr>workers := (workers sd)(worker_count sd := info),
           worker_count := worker_count sd + 1\<rparr>) = live sd @ [info]"
  by (simp add: live_def)

text \<open>
  C9. With the table full (64 live entries), \<open>addWorkerProcess\<close> returns false and changes
  nothing. A successful add puts exactly one new entry, with status STARTING, the given
  pid and worker id, behind the live entries, raises the live count by exactly one, and
  the new count is at most 64.
\<close>

theorem addWorkerProcess_capacity:
  assumes "addWorkerProcess m semop_ok p wid now = (ok, m')"
  shows "(\<forall>sd. shared_data m = Some sd \<and> MAX_WORKER_PROCESSES \<le> worker_count sd
            \<longrightarrow> \<not> ok \<and> m' = m)
       \<and> (\<not> ok \<longrightarrow> m' = m)
       \<and> (ok \<longrightarrow> (\<exists>sd sd'. shared_data m = Some sd \<and> m' = m\<lparr>shared_data := Some sd'\<rparr>
              \<and> sd' = sd\<lparr>workers := workers sd', worker_count := worker_count sd'\<rparr>
              \<and> worker_count sd' = worker_count sd + 1
              \<and> worker_count sd' \<le> 64
              \<and> live sd' = live sd @ [\<lparr>pid = p, worker_id = wid, status = STARTING,
                                      start_time = now, last_heartbeat = now\<rparr>]))"
proof (intro conjI allI impI)
  fix sd assume "shared_data m = Some sd \<and> MAX_WORKER_PROCESSES \<le> worker_count sd"
  with assms show "\<not> ok" and "m' = m"
    by (auto simp: addWorkerProcess_def split: if_splits)
next
  assume "\<not> ok"
  with assms show "m' = m"
    by (auto simp: addWorkerProcess_def Let_def split: if_splits option.splits)
next
  assume ok
  with assms obtain sd where sd: "shared_data m = Some sd"
    and lt: "worker_count sd < MAX_WORKER_PROCESSES"
    and m': "m' = m\<lparr>shared_data := Some (sd\<lparr>workers := (workers sd)
        (worker_count sd := \<lparr>pid = p, worker_id = wid, status = STARTING,
                               start_time = now, last_heartbeat = now\<rparr>),
        worker_count := worker_count sd + 1\<rparr>)\<rparr>"
    by (auto simp: addWorkerProcess_def Let_def split: if_splits option.splits)
  let ?sd' = "sd\<lparr>workers := (workers sd)
        (worker_count sd := \<lparr>pid = p, worker_id = wid, status = STARTING,
                               start_time = now, last_heartbeat = now\<rparr>),
        worker_count := worker_count sd + 1\<rparr>"
  have "live ?sd' = live sd @ [\<lparr>pid = p, worker_id = wid, status = STARTING,
                                start_time = now, last_heartbeat = now\<rparr>]"
    by (rule live_add)
  moreover have "worker_count ?sd' \<le> 64"
    using lt by (simp add: MAX_WORKER_PROCESSES_def)
  ultimately show "\<exists>sd sd'. shared_data m = Some sd \<and> m' = m\<lparr>shared_data := Some sd'\<rparr>
              \<and> sd' = sd\<lparr>workers := workers sd', worker_count := worker_count sd'\<rparr>
              \<and> worker_count sd' = worker_count sd + 1
              \<and> worker_count sd' \<le> 64
              \<and> live sd' = live sd @ [\<lparr>pid = p, worker_id = wid, status = STARTING,
                                      start_time = now, last_heartbeat = now\<rparr>]"
    using sd m' by (intro exI [of _ sd] exI [of _ ?sd']) simp
qed

lemma lock_fresh: "lockSharedMemory ipc_fresh True"
  by (simp add: lockSharedMemory_def ipc_fresh_def initializeSharedData_def)

lemma shared_fresh:
  "shared_data ipc_fresh = Some \<lparr>workers = (\<lambda>i. zero_ProcessInfo), worker_count = 0,
     stats = zero_ProcessStatistics, shutdown_flag = False, reload_flag = False,
     master_pid = 1, shm_start_time = 0\<rparr>"
  by (simp add: ipc_fresh_def initializeSharedData_def)

theorem addWorkerProcess_capacity_witness:
  "fst (addWorkerProcess ipc_fresh True 100 1 5)
   \<and> map_option worker_count (shared_data (snd (addWorkerProcess ipc_fresh True 100 1 5))) = Some 1
   \<and> map_option live (shared_data (snd (addWorkerProcess ipc_fresh True 100 1 5)))
       = Some [\<lparr>pid = 100, worker_id = 1, status = STARTING, start_time = 5, last_heartbeat = 5\<rparr>]
   \<and> addWorkerProcess ipc_full True 164 65 5 = (False, ipc_full)"
proof -
  obtain ok m' where r: "addWorkerProcess ipc_fresh True 100 1 5 = (ok, m')"
    by (cases "addWorkerProcess ipc_fresh True 100 1 5")
  have ok: ok
    using r lock_fresh shared_fresh
    by (auto simp: addWorkerProcess_def MAX_WORKER_PROCESSES_def Let_def split: if_splits)
  from addWorkerProcess_capacity [OF r] ok obtain sd sd' where
    sd: "shared_data ipc_fresh = Some sd" and m': "m' = ipc_fresh\<lparr>shared_data := Some sd'\<rparr>"
    and cnt: "worker_count sd' = worker_count sd + 1"
    and lv: "live sd' = live sd @ [\<lparr>pid = 100, worker_id = 1, status = STARTING,
                                     start_time = 5, last_heartbeat = 5\<rparr>]"
    by blast
  have first: "fst (addWorkerProcess ipc_fresh True 100 1 5)"
    and second: "map_option worker_count (shared_data (snd (addWorkerProcess ipc_fresh True 100 1 5))) = Some 1"
    and third: "map_option live (shared_data (snd (addWorkerProcess ipc_fresh True 100 1 5)))
       = Some [\<lparr>pid = 100, worker_id = 1, status = STARTING, start_time = 5, last_heartbeat = 5\<rparr>]"
    using r ok sd m' cnt lv shared_fresh by (auto simp: live_def)
  obtain ok2 m2 where r2: "addWorkerProcess ipc_full True 164 65 5 = (ok2, m2)"
    by (cases "addWorkerProcess ipc_full True 164 65 5")
  have full: "shared_data ipc_full = Some \<lparr>workers = (\<lambda>i. zero_ProcessInfo\<lparr>pid := 100 + int i\<rparr>),
     worker_count = 64, stats = zero_ProcessStatistics, shutdown_flag = False,
     reload_flag = False, master_pid = 1, shm_start_time = 0\<rparr>"
    by (simp add: ipc_full_def)
  from addWorkerProcess_capacity [OF r2] full have "\<not> ok2 \<and> m2 = ipc_full"
    by (simp add: MAX_WORKER_PROCESSES_def)
  with r2 have fourth: "addWorkerProcess ipc_full True 164 65 5 = (False, ipc_full)"
    by simp
  from first second third fourth show ?thesis by blast
qed

section \<open>Status and heartbeat are written together\<close>

lemma find_pid_Some:
  "find_pid sd p = Some i \<longleftrightarrow>
     i < worker_count sd \<and> pid (workers sd i) = p \<and> (\<forall>j<i. pid (workers sd j) \<noteq> p)"
proof -
  have "find_pid sd p = Some i \<longleftrightarrow>
      (\<exists>k<worker_count sd. pid (workers sd ([0..<worker_count sd] ! k)) = p
          \<and> i = [0..<worker_count sd] ! k
          \<and> (\<forall>j<k. pid (workers sd ([0..<worker_count sd] ! j)) \<noteq> p))"
    by (simp add: find_pid_def find_Some_iff)
  also have "\<dots> \<longleftrightarrow> i < worker_count sd \<and> pid (workers sd i) = p \<and> (\<forall>j<i. pid (workers sd j) \<noteq> p)"
    by auto
  finally show ?thesis .
qed

text \<open>
  C10. \<open>updateWorkerStatus\<close> either changes nothing (and returns false) or rewrites, in the
  first live entry with the given pid, the status and the last-heartbeat time together
  (the latter to the current time) and nothing else. The supervisor's heartbeat handler is
  such an update with status RUNNING: on an entry that it finds, it sets the status to
  RUNNING and the last-heartbeat time to the current time.
\<close>

theorem updateWorkerStatus_status_with_heartbeat:
  assumes "updateWorkerStatus m semop_ok p st now = (ok, m')"
  shows "(\<not> ok \<longrightarrow> m' = m)
       \<and> (ok \<longrightarrow> (\<exists>sd i. shared_data m = Some sd \<and> i < worker_count sd
              \<and> pid (workers sd i) = p \<and> (\<forall>j<i. pid (workers sd j) \<noteq> p)
              \<and> m' = m\<lparr>shared_data := Some (sd\<lparr>workers := (workers sd)
                     (i := (workers sd i)\<lparr>status := st, last_heartbeat := now\<rparr>)\<rparr>)\<rparr>))
       \<and> (\<forall>sd i. lockSharedMemory m semop_ok \<and> shared_data m = Some sd
              \<and> find_pid sd (sender_pid message) = Some i
            \<longrightarrow> handleHeartbeatMessage m semop_ok message now
                = m\<lparr>shared_data := Some (sd\<lparr>workers := (workers sd)
                     (i := (workers sd i)\<lparr>status := RUNNING, last_heartbeat := now\<rparr>)\<rparr>)\<rparr>)"
proof (intro conjI allI impI)
  assume "\<not> ok"
  with assms show "m' = m"
    by (auto simp: updateWorkerStatus_def split: if_splits option.splits)
next
  assume ok
  with assms obtain sd i where "shared_data m = Some sd" "find_pid sd p = Some i"
    "m' = m\<lparr>shared_data := Some (sd\<lparr>workers := (workers sd)
                     (i := (workers sd i)\<lparr>status := st, last_heartbeat := now\<rparr>)\<rparr>)\<rparr>"
    by (auto simp: updateWorkerStatus_def split: if_splits option.splits)
  then show "\<exists>sd i. shared_data m = Some sd \<and> i < worker_count sd
              \<and> pid (workers sd i) = p \<and> (\<forall>j<i. pid (workers sd j) \<noteq> p)
              \<and> m' = m\<lparr>shared_data := Some (sd\<lparr>workers := (workers sd)
                     (i := (workers sd i)\<lparr>status := st, last_heartbeat := now\<rparr>)\<rparr>)\<rparr>"
    by (auto simp: find_pid_Some)
next
  fix sd i
  assume "lockSharedMemory m semop_ok \<and> shared_data m = Some sd
              \<and> find_pid sd (sender_pid message) = Some i"
  then show "handleHeartbeatMessage m semop_ok message now
                = m\<lparr>shared_data := Some (sd\<lparr>workers := (workers sd)
                     (i := (workers sd i)\<lparr>status := RUNNING, last_heartbeat := now\<rparr>)\<rparr>)\<rparr>"
    by (simp add: handleHeartbeatMessage_def updateWorkerStatus_def)
qed

lemma shared_one:
  "shared_data ipc_one = Some \<lparr>workers = (\<lambda>i. zero_ProcessInfo)
       (0 := \<lparr>pid = 100, worker_id = 1, status = STOPPING, start_time = 0, last_heartbeat = 0\<rparr>),
     worker_count = 1, stats = zero_ProcessStatistics, shutdown_flag = False,
     reload_flag = False, master_pid = 1, shm_start_time = 0\<rparr>"
  by (simp add: ipc_one_def addWorkerProcess_def updateWorkerStatus_def lockSharedMemory_def
      ipc_fresh_def initializeSharedData_def MAX_WORKER_PROCESSES_def find_pid_def Let_def)

lemma lock_one: "lockSharedMemory ipc_one True"
  by (simp add: ipc_one_def addWorkerProcess_def updateWorkerStatus_def lockSharedMemory_def
      ipc_fresh_def initializeSharedData_def MAX_WORKER_PROCESSES_def find_pid_def Let_def)

theorem updateWorkerStatus_status_with_heartbeat_witness:
  "map_option (\<lambda>sd. (status (workers sd 0), last_heartbeat (workers sd 0))) (shared_data ipc_one)
     = Some (STOPPING, 0)
   \<and> fst (updateWorkerStatus ipc_one True 100 STOPPED 42)
   \<and> map_option (\<lambda>sd. (status (workers sd 0), last_heartbeat (workers sd 0)))
        (shared_data (snd (updateWorkerStatus ipc_one True 100 STOPPED 42))) = Some (STOPPED, 42)
   \<and> map_option (\<lambda>sd. (status (workers sd 0), last_heartbeat (workers sd 0)))
        (shared_data (handleHeartbeatMessage ipc_one True
           \<lparr>msg_type = HEARTBEAT, sender_pid = 100, receiver_pid = 1, timestamp = 41,
            data = heartbeat_data 1\<rparr> 42)) = Some (RUNNING, 42)
   \<and> updateWorkerStatus ipc_one True 7 STOPPED 42 = (False, ipc_one)"
proof -
  let ?msg = "\<lparr>msg_type = HEARTBEAT, sender_pid = 100, receiver_pid = 1, timestamp = 41,
            data = heartbeat_data 1\<rparr>"
  let ?sd = "\<lparr>workers = (\<lambda>i. zero_ProcessInfo)
       (0 := \<lparr>pid = 100, worker_id = 1, status = STOPPING, start_time = 0, last_heartbeat = 0\<rparr>),
     worker_count = 1, stats = zero_ProcessStatistics, shutdown_flag = False,
     reload_flag = False, master_pid = 1, shm_start_time = 0\<rparr>"
  have f: "find_pid ?sd 100 = Some 0" and nf: "find_pid ?sd 7 = None"
    by (simp_all add: find_pid_def zero_ProcessInfo_def)
  obtain ok m' where r: "updateWorkerStatus ipc_one True 100 STOPPED 42 = (ok, m')"
    by (cases "updateWorkerStatus ipc_one True 100 STOPPED 42")
  have ok: ok
    using r lock_one shared_one f by (auto simp: updateWorkerStatus_def)
  note t = updateWorkerStatus_status_with_heartbeat [OF r, of ?msg]
  from t ok obtain sd i where sd: "shared_data ipc_one = Some sd" and i: "i < worker_count sd"
    and m': "m' = ipc_one\<lparr>shared_data := Some (sd\<lparr>workers := (workers sd)
                     (i := (workers sd i)\<lparr>status := STOPPED, last_heartbeat := 42\<rparr>)\<rparr>)\<rparr>"
    by blast
  from sd i shared_one have i0: "i = 0" and sd_eq: "sd = ?sd" by auto
  from t lock_one shared_one f have hb: "handleHeartbeatMessage ipc_one True ?msg 42
      = ipc_one\<lparr>shared_data := Some (?sd\<lparr>workers := (workers ?sd)
                     (0 := (workers ?sd 0)\<lparr>status := RUNNING, last_heartbeat := 42\<rparr>)\<rparr>)\<rparr>"
    by simp
  obtain ok2 m2 where r2: "updateWorkerStatus ipc_one True 7 STOPPED 42 = (ok2, m2)"
    by (cases "updateWorkerStatus ipc_one True 7 STOPPED 42")
  have "\<not> ok2"
    using r2 lock_one shared_one nf by (auto simp: updateWorkerStatus_def)
  with updateWorkerStatus_status_with_heartbeat [OF r2, of ?msg] r2
  have last: "updateWorkerStatus ipc_one True 7 STOPPED 42 = (False, ipc_one)" by simp
  show ?thesis
    using r ok m' i0 sd_eq hb last shared_one by simp
qed

section \<open>Statistics updates\<close>

text \<open>
  C4, as the code has it. A statistics update that takes the lock, on an attached region,
  replaces the stored statistics by the given snapshot and stamps \<open>last_update\<close> with the
  current time: each of the four counters afterwards is the snapshot's counter, whatever
  was stored before. So a counter does not go down across the update exactly when the
  snapshot's value is at least the stored one. The handler of a Statistics message is this
  update with the message's snapshot.
\<close>

theorem updateStatistics_overwrites:
  assumes "lockSharedMemory m semop_ok" and "shared_data m = Some sd"
  shows "updateStatistics m semop_ok st now
           = (True, m\<lparr>shared_data := Some (sd\<lparr>stats := st\<lparr>last_update := now\<rparr>\<rparr>)\<rparr>)
       \<and> getStatistics (snd (updateStatistics m semop_ok st now)) semop_ok = st\<lparr>last_update := now\<rparr>
       \<and> updateGlobalStatistics m semop_ok
            \<lparr>msg_type = STATISTICS, sender_pid = p, receiver_pid = r, timestamp = t, data = stats_data st\<rparr> now
           = Some (m\<lparr>shared_data := Some (sd\<lparr>stats := st\<lparr>last_update := now\<rparr>\<rparr>)\<rparr>)
       \<and> (messages_processed (stats sd)
             \<le> messages_processed (getStatistics (snd (updateStatistics m semop_ok st now)) semop_ok)
            \<longleftrightarrow> messages_processed (stats sd) \<le> messages_processed st)
       \<and> (data_received (stats sd)
             \<le> data_received (getStatistics (snd (updateStatistics m semop_ok st now)) semop_ok)
            \<longleftrightarrow> data_received (stats sd) \<le> data_received st)
       \<and> (data_sent (stats sd)
             \<le> data_sent (getStatistics (snd (updateStatistics m semop_ok st now)) semop_ok)
            \<longleftrightarrow> data_sent (stats sd) \<le> data_sent st)
       \<and> (errors (stats sd)
             \<le> errors (getStatistics (snd (updateStatistics m semop_ok st now)) semop_ok)
            \<longleftrightarrow> errors (stats sd) \<le> errors st)"
  using assms
  by (simp add: updateStatistics_def updateGlobalStatistics_def getStatistics_def Let_def
      lock_shared_data_update)

theorem updateStatistics_overwrites_witness:
  "getStatistics (snd (updateStatistics ipc_fresh True (snapshot 1 10) 5)) True
     = (snapshot 1 10)\<lparr>last_update := 5\<rparr>
   \<and> messages_processed (getStatistics ipc_fresh True) = 0
   \<and> messages_processed (getStatistics (snd (updateStatistics ipc_fresh True (snapshot 1 10) 5)) True) = 10"
proof -
  from updateStatistics_overwrites [OF lock_fresh shared_fresh, of "snapshot 1 10" 5 100 1 5]
  have a: "getStatistics (snd (updateStatistics ipc_fresh True (snapshot 1 10) 5)) True
     = (snapshot 1 10)\<lparr>last_update := 5\<rparr>"
    by blast
  have b: "messages_processed (getStatistics ipc_fresh True) = 0"
    using lock_fresh shared_fresh
    by (simp add: getStatistics_def Let_def zero_ProcessStatistics_def)
  from a b show ?thesis
    by (simp add: snapshot_def)
qed

text \<open>
  Worker 1 has reported 10 messages; then worker 2's snapshot with 3 messages arrives. The
  stored counters go from 10 to 3.
\<close>

theorem updateStatistics_not_monotone_counterexample:
  "messages_processed (getStatistics (snd (updateStatistics ipc_fresh True (snapshot 1 10) 5)) True) = 10
   \<and> updateGlobalStatistics (snd (updateStatistics ipc_fresh True (snapshot 1 10) 5)) True
        (stats_message 101 (snapshot 2 3)) 6
      = Some (snd (updateStatistics (snd (updateStatistics ipc_fresh True (snapshot 1 10) 5)) True
                (snapshot 2 3) 6))
   \<and> messages_processed (getStatistics
        (snd (updateStatistics (snd (updateStatistics ipc_fresh True (snapshot 1 10) 5)) True
                (snapshot 2 3) 6)) True) = 3
   \<and> errors (getStatistics
        (snd (updateStatistics (snd (updateStatistics ipc_fresh True (snapshot 1 10) 5)) True
                (snapshot 2 3) 6)) True)
       < errors (getStatistics (snd (updateStatistics ipc_fresh True (snapshot 1 10) 5)) True)"
  by (simp add: updateStatistics_def updateGlobalStatistics_def getStatistics_def Let_def
      lockSharedMemory_def ipc_fresh_def initializeSharedData_def snapshot_def stats_message_def)

section \<open>The liveness sweep\<close>

lemma sweep_filter:
  "sweep t ws = map (\<lambda>w. (pid w, SIGTERM)) (filter (\<lambda>w. HEARTBEAT_TIMEOUT < t - last_heartbeat w) ws)"
  by (induction ws) simp_all

text \<open>
  C3. When the sweep has read the table (lock taken, region attached): every live entry
  with status RUNNING whose last heartbeat is more than 60 seconds before the current
  time has SIGTERM sent to its pid; every signal the sweep sends is a SIGTERM to the pid
  of an entry that is over the threshold, one signal per such entry; and, pids being
  distinct, the pid of an entry within the threshold is sent nothing.
\<close>

theorem monitorWorkerProcesses_signals_stale:
  assumes "lockSharedMemory ipc semop_ok" and "shared_data ipc = Some sd"
  shows "(\<forall>w \<in> set (live sd). status w = RUNNING \<and> 60 < now - last_heartbeat w
            \<longrightarrow> (pid w, SIGTERM) \<in> set (monitorWorkerProcesses ipc semop_ok now))
       \<and> (\<forall>k \<in> set (monitorWorkerProcesses ipc semop_ok now).
            snd k = SIGTERM \<and> (\<exists>w \<in> set (live sd). pid w = fst k \<and> 60 < now - last_heartbeat w))
       \<and> length (monitorWorkerProcesses ipc semop_ok now)
            = length (filter (\<lambda>w. 60 < now - last_heartbeat w) (live sd))
       \<and> (distinct (map pid (live sd)) \<longrightarrow>
            (\<forall>w \<in> set (live sd). now - last_heartbeat w \<le> 60
               \<longrightarrow> pid w \<notin> fst ` set (monitorWorkerProcesses ipc semop_ok now)))"
proof -
  have m: "monitorWorkerProcesses ipc semop_ok now
      = map (\<lambda>w. (pid w, SIGTERM)) (filter (\<lambda>w. 60 < now - last_heartbeat w) (live sd))"
    using assms
    by (simp add: monitorWorkerProcesses_def getWorkerProcesses_def sweep_filter
        HEARTBEAT_TIMEOUT_def)
  have a: "\<forall>w \<in> set (live sd). status w = RUNNING \<and> 60 < now - last_heartbeat w
            \<longrightarrow> (pid w, SIGTERM) \<in> set (monitorWorkerProcesses ipc semop_ok now)"
    unfolding m by auto
  have b: "\<forall>k \<in> set (monitorWorkerProcesses ipc semop_ok now).
            snd k = SIGTERM \<and> (\<exists>w \<in> set (live sd). pid w = fst k \<and> 60 < now - last_heartbeat w)"
    unfolding m by auto
  have c: "length (monitorWorkerProcesses ipc semop_ok now)
            = length (filter (\<lambda>w. 60 < now - last_heartbeat w) (live sd))"
    unfolding m by simp
  have d: "distinct (map pid (live sd)) \<longrightarrow>
            (\<forall>w \<in> set (live sd). now - last_heartbeat w \<le> 60
               \<longrightarrow> pid w \<notin> fst ` set (monitorWorkerProcesses ipc semop_ok now))"
  proof (intro impI ballI)
    fix w
    assume dist: "distinct (map pid (live sd))" and w: "w \<in> set (live sd)"
      and fresh: "now - last_heartbeat w \<le> 60"
    show "pid w \<notin> fst ` set (monitorWorkerProcesses ipc semop_ok now)"
    proof
      assume "pid w \<in> fst ` set (monitorWorkerProcesses ipc semop_ok now)"
      then obtain w' where w': "w' \<in> set (live sd)" "60 < now - last_heartbeat w'" "pid w' = pid w"
        unfolding m by auto
      from dist w w' have "w' = w"
        by (meson distinct_map inj_onD)
      with w' fresh show False by simp
    qed
  qed
  from a b c d show ?thesis by blast
qed

theorem monitorWorkerProcesses_signals_stale_witness:
  "monitorWorkerProcesses ipc_two True 100 = [(100, SIGTERM)]
   \<and> map_option (map (\<lambda>w. (pid w, status w, 100 - last_heartbeat w))) (map_option live (shared_data ipc_two))
       = Some [(100, RUNNING, 70), (101, RUNNING, 50)]"
proof -
  let ?sd = "\<lparr>workers = (\<lambda>i. zero_ProcessInfo)
       (0 := \<lparr>pid = 100, worker_id = 1, status = RUNNING, start_time = 0, last_heartbeat = 30\<rparr>,
        1 := \<lparr>pid = 101, worker_id = 2, status = RUNNING, start_time = 0, last_heartbeat = 50\<rparr>),
     worker_count = 2, stats = zero_ProcessStatistics, shutdown_flag = False,
     reload_flag = False, master_pid = 1, shm_start_time = 0\<rparr>"
  have l: "lockSharedMemory ipc_two True"
    by (simp add: ipc_two_def lock_shared_data_update lock_fresh)
  have s: "shared_data ipc_two = Some ?sd"
    by (simp add: ipc_two_def)
  have two: "[0..<2] = [0, Suc 0]"
    by (simp add: upt_rec)
  have lv: "live ?sd = [\<lparr>pid = 100, worker_id = 1, status = RUNNING, start_time = 0, last_heartbeat = 30\<rparr>,
        \<lparr>pid = 101, worker_id = 2, status = RUNNING, start_time = 0, last_heartbeat = 50\<rparr>]"
    by (simp add: live_def two)
  note t = monitorWorkerProcesses_signals_stale [OF l s, of 100]
  from t lv have in1: "(100, SIGTERM) \<in> set (monitorWorkerProcesses ipc_two True 100)"
    by simp
  from t lv have len: "length (monitorWorkerProcesses ipc_two True 100) = 1"
    by simp
  from len obtain k where k: "monitorWorkerProcesses ipc_two True 100 = [k]"
    by (cases "monitorWorkerProcesses ipc_two True 100") auto
  with in1 have "monitorWorkerProcesses ipc_two True 100 = [(100, SIGTERM)]"
    by simp
  then show ?thesis
    using s lv by simp
qed

section \<open>Reaping and respawn\<close>

lemma map_of_map_assign: "map_of (map_assign k v xs) k = Some v"
  by (induction xs) auto

lemma createWorkerProcess_fresh_record:
  assumes "createWorkerProcess mp ipc semop_ok f wid now = Some (True, mp', ipc')"
  shows "map_of (master_workers mp') wid
           = Some \<lparr>w_pid = f, w_worker_id = wid, w_start_time = now, restart_count = 0,
                   w_status = STARTING\<rparr>"
  using assms
  by (auto simp: createWorkerProcess_def Let_def map_of_map_assign split: if_splits)

text \<open>
  Whatever the slot's restart count was, after a reaped worker has been respawned
  (\<open>fork\<close> returned the new pid) the slot's record is the fresh one that
  \<open>createWorkerProcess\<close> writes, with restart count 0: the increment made just before on
  the old record is overwritten.
\<close>

lemma handleDeadWorker_respawn:
  assumes "0 < p" and "0 < f"
    and "List.find (has_pid p) (master_workers mp) = Some (wid, info)"
    and "master_running mp"
    and "\<not> getShutdownFlag (snd (removeWorkerProcess ipc semop_ok p))"
  shows "\<exists>mp' ipc'. handleDeadWorker [(p, f)] mp ipc semop_ok now = Some (mp', ipc')
           \<and> map_of (master_workers mp') wid
               = Some \<lparr>w_pid = f, w_worker_id = wid, w_start_time = now, restart_count = 0,
                       w_status = STARTING\<rparr>"
  using assms
  by (simp add: createWorkerProcess_def Let_def map_of_map_assign)

lemma ipc_started_eq:
  "ipc_started = ipc_fresh\<lparr>shared_data := Some \<lparr>workers = (\<lambda>i. zero_ProcessInfo)
       (0 := \<lparr>pid = 100, worker_id = 1, status = STARTING, start_time = 0, last_heartbeat = 0\<rparr>),
     worker_count = 1, stats = zero_ProcessStatistics, shutdown_flag = False,
     reload_flag = False, master_pid = 1, shm_start_time = 0\<rparr>\<rparr>"
  using lock_fresh shared_fresh
  by (simp add: ipc_started_def addWorkerProcess_def MAX_WORKER_PROCESSES_def Let_def)

lemma remove_started:
  "snd (removeWorkerProcess ipc_started True 100)
     = ipc_fresh\<lparr>shared_data := Some \<lparr>workers = (\<lambda>i. zero_ProcessInfo)
       (0 := \<lparr>pid = 100, worker_id = 1, status = STARTING, start_time = 0, last_heartbeat = 0\<rparr>),
     worker_count = 0, stats = zero_ProcessStatistics, shutdown_flag = False,
     reload_flag = False, master_pid = 1, shm_start_time = 0\<rparr>\<rparr>"
  using lock_fresh
  by (simp add: ipc_started_eq removeWorkerProcess_def lock_shared_data_update find_pid_def
      shift_down.simps)

text \<open>
  C1, on the code. The supervisor runs worker 1 as pid 100 with restart count 0, no
  shutdown is in progress, pid 100 is reaped and \<open>fork\<close> returns 101: slot 1 now holds
  pid 101 with restart count 0, not 1. When \<open>fork\<close> fails instead, the count is 1 but the
  slot still holds the dead pid 100. With the shared shutdown flag set, the record is
  removed and nothing is spawned.
\<close>

theorem handleDeadWorker_restart_count_lost:
  "map_option (master_workers \<circ> fst) (handleDeadWorker [(100, 101)] master_one ipc_started True 50)
     = Some [(1, \<lparr>w_pid = 101, w_worker_id = 1, w_start_time = 50, restart_count = 0,
                  w_status = STARTING\<rparr>)]
   \<and> map_option (master_workers \<circ> fst) (handleDeadWorker [(100, - 1)] master_one ipc_started True 50)
     = Some [(1, \<lparr>w_pid = 100, w_worker_id = 1, w_start_time = 0, restart_count = 1,
                  w_status = STARTING\<rparr>)]
   \<and> map_option (master_workers \<circ> fst)
        (handleDeadWorker [(100, 101)] master_one (setShutdownFlag ipc_started True) True 50)
     = Some []"
proof -
  have g: "\<not> getShutdownFlag (snd (removeWorkerProcess ipc_started True 100))"
    by (simp add: remove_started getShutdownFlag_def)
  have f: "List.find (has_pid 100) (master_workers master_one)
      = Some (1, \<lparr>w_pid = 100, w_worker_id = 1, w_start_time = 0, restart_count = 0,
                  w_status = STARTING\<rparr>)"
    by (simp add: master_one_def has_pid_def)
  have r: "master_running master_one"
    by (simp add: master_one_def)
  have u: "update_first (has_pid 100) bump_restart (master_workers master_one)
      = [(1, \<lparr>w_pid = 100, w_worker_id = 1, w_start_time = 0, restart_count = 1,
                  w_status = STARTING\<rparr>)]"
    by (simp add: master_one_def has_pid_def bump_restart_def)
  have a: "map_option (master_workers \<circ> fst) (handleDeadWorker [(100, 101)] master_one ipc_started True 50)
     = Some [(1, \<lparr>w_pid = 101, w_worker_id = 1, w_start_time = 50, restart_count = 0,
                  w_status = STARTING\<rparr>)]"
    using g f r u by (simp add: createWorkerProcess_def Let_def)
  have b: "map_option (master_workers \<circ> fst) (handleDeadWorker [(100, - 1)] master_one ipc_started True 50)
     = Some [(1, \<lparr>w_pid = 100, w_worker_id = 1, w_start_time = 0, restart_count = 1,
                  w_status = STARTING\<rparr>)]"
    using g f r u by (simp add: createWorkerProcess_def Let_def)
  have s: "setShutdownFlag ipc_started True
      = ipc_fresh\<lparr>shared_data := Some \<lparr>workers = (\<lambda>i. zero_ProcessInfo)
       (0 := \<lparr>pid = 100, worker_id = 1, status = STARTING, start_time = 0, last_heartbeat = 0\<rparr>),
     worker_count = 1, stats = zero_ProcessStatistics, shutdown_flag = True,
     reload_flag = False, master_pid = 1, shm_start_time = 0\<rparr>\<rparr>"
    by (simp add: ipc_started_eq setShutdownFlag_def)
  have g': "getShutdownFlag (snd (removeWorkerProcess (setShutdownFlag ipc_started True) True 100))"
    using lock_fresh
    by (simp add: s removeWorkerProcess_def lock_shared_data_update find_pid_def
        shift_down.simps getShutdownFlag_def)
  have c: "map_option (master_workers \<circ> fst)
        (handleDeadWorker [(100, 101)] master_one (setShutdownFlag ipc_started True) True 50)
     = Some []"
    using g' f by (simp add: master_one_def has_pid_def)
  from a b c show ?thesis by blast
qed

section \<open>Graceful shutdown\<close>

lemma signal_all_filter:
  "signal_all sig ws = map (\<lambda>e. (w_pid (snd e), sig)) (filter (\<lambda>e. 0 < w_pid (snd e)) ws)"
  by (induction ws) simp_all

lemma handleDeadWorker_not_running:
  assumes "\<not> master_running mp"
  shows "\<exists>mp' ipc'. handleDeadWorker rs mp ipc semop_ok now = Some (mp', ipc')
           \<and> \<not> master_running mp'"
  using assms
proof (induction rs arbitrary: mp ipc)
  case Nil
  then show ?case by simp
next
  case (Cons r rs)
  obtain p f where r: "r = (p, f)" by (cases r)
  show ?case
  proof (cases "0 < p")
    case False
    with Cons.prems r show ?thesis by simp
  next
    case True
    show ?thesis
    proof (cases "List.find (has_pid p) (master_workers mp)")
      case None
      with True r Cons.IH [OF Cons.prems, of ipc] show ?thesis by simp
    next
      case (Some it)
      have "\<not> master_running (mp\<lparr>master_workers := erase_first (has_pid p) (master_workers mp)\<rparr>)"
        using Cons.prems by simp
      from Cons.IH [OF this, of "snd (removeWorkerProcess ipc semop_ok p)"]
      show ?thesis using True r Some Cons.prems by simp
    qed
  qed
qed

lemma wait_loop_bounded:
  assumes "\<not> master_running mp" and "wait_time \<le> max_wait_time"
  shows "\<exists>n mp' ipc'. wait_loop env wait_time mp ipc semop_ok now = Some (n, mp', ipc')
           \<and> wait_time \<le> n \<and> n \<le> max_wait_time \<and> \<not> master_running mp'
           \<and> (n < max_wait_time \<longrightarrow> master_workers mp' = [])"
  using assms
proof (induction env wait_time mp ipc semop_ok now rule: wait_loop.induct)
  case (1 env wait_time mp ipc semop_ok now)
  show ?case
  proof (cases "master_workers mp \<noteq> [] \<and> wait_time < max_wait_time")
    case False
    with "1.prems" show ?thesis
      by (subst wait_loop.simps) auto
  next
    case go: True
    then have le: "wait_time + 1 \<le> max_wait_time" by simp
    show ?thesis
    proof (cases "fst (env wait_time)")
      case False
      from "1.IH"(2) [OF go False "1.prems"(1) le]
      obtain n mp' ipc' where
        "wait_loop env (wait_time + 1) mp ipc semop_ok now = Some (n, mp', ipc')"
        "wait_time + 1 \<le> n" "n \<le> max_wait_time" "\<not> master_running mp'"
        "n < max_wait_time \<longrightarrow> master_workers mp' = []"
        by blast
      with go False show ?thesis
        by (subst wait_loop.simps) auto
    next
      case True
      from handleDeadWorker_not_running [OF "1.prems"(1), of "snd (env wait_time)" ipc semop_ok now]
      obtain mp1 ipc1 where
        h: "handleDeadWorker (snd (env wait_time)) mp ipc semop_ok now = Some (mp1, ipc1)"
        and nr: "\<not> master_running mp1"
        by blast
      from "1.IH"(1) [OF go True h _ le] nr
      obtain n mp' ipc' where
        "wait_loop env (wait_time + 1) mp1 ipc1 semop_ok now = Some (n, mp', ipc')"
        "wait_time + 1 \<le> n" "n \<le> max_wait_time" "\<not> master_running mp'"
        "n < max_wait_time \<longrightarrow> master_workers mp' = []"
        by auto
      with go True h show ?thesis
        by (subst wait_loop.simps) auto
    qed
  qed
qed

text \<open>
  C2. Shutting down always returns, whatever the workers do (\<open>env\<close> and \<open>zombies\<close> are
  arbitrary): \<open>stop\<close> yields a result, after at most 30 iterations of the wait loop (one
  second each) and at most 32 seconds of sleeping. \<open>gracefulShutdown\<close> itself, entered with
  \<open>running_\<close> cleared as \<open>stop\<close> enters it, first sends SIGTERM to every tracked worker
  with a positive pid, leaves the wait loop before the 30th iteration only when no worker
  is tracked any more, and then sends SIGKILL to every worker still tracked.
\<close>

theorem gracefulShutdown_bounded:
  "(\<exists>r. stop env zombies mp ipc semop_ok now = Some r
        \<and> sr_wait_time r \<le> GRACEFUL_SHUTDOWN_TIMEOUT
        \<and> sr_slept r \<le> GRACEFUL_SHUTDOWN_TIMEOUT + 2)
   \<and> (\<not> master_running mp \<longrightarrow>
        (\<exists>r. gracefulShutdown env zombies mp ipc semop_ok now = Some r
           \<and> sr_wait_time r \<le> 30
           \<and> sr_slept r \<le> 32
           \<and> (sr_wait_time r < 30 \<longrightarrow> master_workers (sr_master r) = [])
           \<and> sr_kills r = signal_all SIGTERM (master_workers mp)
                            @ signal_all SIGKILL (master_workers (sr_master r))))"
proof -
  have gs: "\<exists>r. gracefulShutdown env zombies mp0 ipc0 semop_ok now = Some r
           \<and> sr_wait_time r \<le> 30
           \<and> sr_slept r \<le> 32
           \<and> (sr_wait_time r < 30 \<longrightarrow> master_workers (sr_master r) = [])
           \<and> sr_kills r = signal_all SIGTERM (master_workers mp0)
                            @ signal_all SIGKILL (master_workers (sr_master r))"
    if nr: "\<not> master_running mp0" for mp0 ipc0
  proof -
    from wait_loop_bounded [OF nr, of 0 env ipc0 semop_ok now]
    obtain n mp' ipc' where w: "wait_loop env 0 mp0 ipc0 semop_ok now = Some (n, mp', ipc')"
      and n: "n \<le> max_wait_time" and e: "n < max_wait_time \<longrightarrow> master_workers mp' = []"
      by auto
    show ?thesis
    proof (cases "master_workers mp' = []")
      case True
      with w n e show ?thesis
        by (simp add: gracefulShutdown_def max_wait_time_def)
    next
      case False
      with w n e show ?thesis
        by (simp add: gracefulShutdown_def max_wait_time_def)
    qed
  qed
  have st: "\<exists>r. stop env zombies mp ipc semop_ok now = Some r
        \<and> sr_wait_time r \<le> GRACEFUL_SHUTDOWN_TIMEOUT
        \<and> sr_slept r \<le> GRACEFUL_SHUTDOWN_TIMEOUT + 2"
  proof (cases "master_running mp")
    case False
    then show ?thesis
      by (simp add: stop_def)
  next
    case True
    have "\<not> master_running (mp\<lparr>master_running := False\<rparr>)" by simp
    from gs [OF this, of "setShutdownFlag ipc True"]
    obtain r where "gracefulShutdown env zombies (mp\<lparr>master_running := False\<rparr>)
          (setShutdownFlag ipc True) semop_ok now = Some r"
      "sr_wait_time r \<le> 30" "sr_slept r \<le> 32"
      by blast
    with True show ?thesis
      by (simp add: stop_def GRACEFUL_SHUTDOWN_TIMEOUT_def)
  qed
  from st gs [of mp ipc] show ?thesis by blast
qed

lemma wait_loop_wedged:
  "master_workers mp \<noteq> [] \<Longrightarrow> wait_time \<le> 30 \<Longrightarrow>
     wait_loop wedged wait_time mp ipc semop_ok now = Some (30, mp, ipc)"
proof (induction "30 - wait_time" arbitrary: wait_time)
  case 0
  then show ?case
    by (subst wait_loop.simps) (simp add: max_wait_time_def)
next
  case (Suc d)
  then have "d = 30 - (wait_time + 1)" and "wait_time + 1 \<le> 30" and "wait_time < 30"
    by simp_all
  with Suc.hyps(1) [of "wait_time + 1"] Suc.prems(1)
  have "wait_loop wedged (wait_time + 1) mp ipc semop_ok now = Some (30, mp, ipc)"
    by simp
  with Suc.prems(1) \<open>wait_time < 30\<close> show ?case
    by (subst wait_loop.simps) (simp add: max_wait_time_def wedged_def)
qed

theorem gracefulShutdown_bounded_witness:
  "map_option sr_wait_time (stop wedged [100] master_one ipc_started True 0) = Some 30
   \<and> map_option sr_slept (stop wedged [100] master_one ipc_started True 0) = Some 32
   \<and> map_option sr_kills (stop wedged [100] master_one ipc_started True 0)
       = Some [(100, SIGTERM), (100, SIGKILL)]
   \<and> map_option sr_wait_time (stop responsive [] master_one ipc_started True 0) = Some 1
   \<and> map_option sr_kills (stop responsive [] master_one ipc_started True 0)
       = Some [(100, SIGTERM)]
   \<and> map_option (master_workers \<circ> sr_master) (stop responsive [] master_one ipc_started True 0)
       = Some []"
proof -
  let ?mp = "master_one\<lparr>master_running := False\<rparr>"
  let ?ipc = "setShutdownFlag ipc_started True"
  have nr: "\<not> master_running ?mp" by simp
  have ws: "master_workers ?mp = [(1, \<lparr>w_pid = 100, w_worker_id = 1, w_start_time = 0,
                            restart_count = 0, w_status = STARTING\<rparr>)]"
    by (simp add: master_one_def)
  have run: "master_running master_one"
    by (simp add: master_one_def)
  note t = gracefulShutdown_bounded [of wedged "[100]" ?mp ?ipc True 0]
  from t nr obtain r where r: "gracefulShutdown wedged [100] ?mp ?ipc True 0 = Some r"
    and k: "sr_kills r = signal_all SIGTERM (master_workers ?mp)
                            @ signal_all SIGKILL (master_workers (sr_master r))"
    by blast
  have w: "wait_loop wedged 0 ?mp ?ipc True 0 = Some (30, ?mp, ?ipc)"
    by (rule wait_loop_wedged) (simp_all add: ws)
  from r w ws have r_eq: "sr_master r = ?mp" "sr_wait_time r = 30" "sr_slept r = 32"
    by (auto simp: gracefulShutdown_def)
  from k r_eq ws have kills: "sr_kills r = [(100, SIGTERM), (100, SIGKILL)]"
    by simp
  have a: "stop wedged [100] master_one ipc_started True 0 = Some (r\<lparr>sr_ipc := cleanup (sr_ipc r)\<rparr>)"
    using r run by (simp add: stop_def)
  note t2 = gracefulShutdown_bounded [of responsive "[]" ?mp ?ipc True 0]
  from t2 nr obtain r2 where r2: "gracefulShutdown responsive [] ?mp ?ipc True 0 = Some r2"
    and k2: "sr_kills r2 = signal_all SIGTERM (master_workers ?mp)
                            @ signal_all SIGKILL (master_workers (sr_master r2))"
    by blast
  have h: "handleDeadWorker [(100, 0)] ?mp ?ipc True 0
      = Some (?mp\<lparr>master_workers := []\<rparr>, snd (removeWorkerProcess ?ipc True 100))"
    by (simp add: master_one_def has_pid_def)
  have w2: "wait_loop responsive 0 ?mp ?ipc True 0
      = Some (1, ?mp\<lparr>master_workers := []\<rparr>, snd (removeWorkerProcess ?ipc True 100))"
    using ws h
    by (subst wait_loop.simps, subst wait_loop.simps)
       (simp add: max_wait_time_def responsive_def)
  from r2 w2 have r2_eq: "sr_master r2 = ?mp\<lparr>master_workers := []\<rparr>" "sr_wait_time r2 = 1"
    by (auto simp: gracefulShutdown_def)
  from k2 r2_eq ws have kills2: "sr_kills r2 = [(100, SIGTERM)]"
    by simp
  have b: "stop responsive [] master_one ipc_started True 0 = Some (r2\<lparr>sr_ipc := cleanup (sr_ipc r2)\<rparr>)"
    using r2 run by (simp add: stop_def)
  show ?thesis
    using a b r_eq kills r2_eq kills2 by simp
qed

section \<open>Bring-up over an existing resource\<close>

lemma init_semaphores_ok:
  "fst (init_semaphores setval sid is) \<longleftrightarrow> (\<forall>i \<in> set is. setval i \<noteq> -1)"
  by (induction "is") auto

text \<open>
  C5. For each of the three resources: when the exclusive creation finds the key taken
  (EEXIST) and the existing resource can be opened, the function removes that resource
  (IPC_RMID on its id) and then creates anew, in this order, and it succeeds with the new
  id whenever that creation succeeds (and, for the shared memory, the region can be
  attached; for the semaphores, every one can be set to 1). The function returns false
  only when the key cannot be derived, when the kernel refuses the creation (the first one
  for a reason other than EEXIST, or the one after the removal), or when attaching or
  initialising the new resource fails; never because the resource existed.
\<close>

theorem create_over_existing:
  "(ftok_key k \<noteq> -1 \<and> get_excl k = -1 \<and> get_excl_errno k = EEXIST \<and> get_existing k \<noteq> -1 \<longrightarrow>
      fst (createMessageQueue m k) = (get_creat k \<noteq> -1)
      \<and> msg_queue_id (fst (snd (createMessageQueue m k))) = get_creat k
      \<and> snd (snd (createMessageQueue m k))
           = [sys_ftok MessageQueue, sys_get MessageQueue CREAT_EXCL, sys_get MessageQueue NO_FLAGS,
              sys_rmid MessageQueue (get_existing k), sys_get MessageQueue CREAT]
      \<and> fst (createSharedMemory m k attached) = (get_creat k \<noteq> -1 \<and> attached \<noteq> None)
      \<and> take 5 (snd (snd (createSharedMemory m k attached)))
           = [sys_ftok SharedMemory, sys_get SharedMemory CREAT_EXCL, sys_get SharedMemory NO_FLAGS,
              sys_rmid SharedMemory (get_existing k), sys_get SharedMemory CREAT]
      \<and> (get_creat k \<noteq> -1 \<longrightarrow> shm_id (fst (snd (createSharedMemory m k attached))) = get_creat k
            \<and> shared_data (fst (snd (createSharedMemory m k attached))) = attached)
      \<and> fst (createSemaphores m k n setval)
           = (get_creat k \<noteq> -1 \<and> (\<forall>i<n. setval i \<noteq> -1))
      \<and> take 5 (snd (snd (createSemaphores m k n setval)))
           = [sys_ftok Semaphores, sys_get Semaphores CREAT_EXCL, sys_get Semaphores NO_FLAGS,
              sys_rmid Semaphores (get_existing k), sys_get Semaphores CREAT]
      \<and> (get_creat k \<noteq> -1 \<longrightarrow> sem_id (fst (snd (createSemaphores m k n setval))) = get_creat k))
   \<and> (\<not> fst (createMessageQueue m k) \<longleftrightarrow>
        ftok_key k = -1 \<or> (get_excl k = -1 \<and> get_excl_errno k \<noteq> EEXIST)
        \<or> (get_excl k = -1 \<and> get_creat k = -1))
   \<and> (\<not> fst (createSharedMemory m k attached) \<longleftrightarrow>
        ftok_key k = -1 \<or> (get_excl k = -1 \<and> get_excl_errno k \<noteq> EEXIST)
        \<or> (get_excl k = -1 \<and> get_creat k = -1) \<or> attached = None)
   \<and> (\<not> fst (createSemaphores m k n setval) \<longleftrightarrow>
        ftok_key k = -1 \<or> (get_excl k = -1 \<and> get_excl_errno k \<noteq> EEXIST)
        \<or> (get_excl k = -1 \<and> get_creat k = -1) \<or> (\<exists>i<n. setval i = -1))"
proof -
  have sem: "fst (init_semaphores setval sid [0..<n]) \<longleftrightarrow> (\<forall>i<n. setval i \<noteq> -1)" for sid
    by (auto simp: init_semaphores_ok)
  have q1: "ftok_key k \<noteq> -1 \<and> get_excl k = -1 \<and> get_excl_errno k = EEXIST \<and> get_existing k \<noteq> -1 \<longrightarrow>
      fst (createMessageQueue m k) = (get_creat k \<noteq> -1)
      \<and> msg_queue_id (fst (snd (createMessageQueue m k))) = get_creat k
      \<and> snd (snd (createMessageQueue m k))
           = [sys_ftok MessageQueue, sys_get MessageQueue CREAT_EXCL, sys_get MessageQueue NO_FLAGS,
              sys_rmid MessageQueue (get_existing k), sys_get MessageQueue CREAT]"
    by (simp add: createMessageQueue_def)
  have s1: "ftok_key k \<noteq> -1 \<and> get_excl k = -1 \<and> get_excl_errno k = EEXIST \<and> get_existing k \<noteq> -1 \<longrightarrow>
      fst (createSharedMemory m k attached) = (get_creat k \<noteq> -1 \<and> attached \<noteq> None)
      \<and> take 5 (snd (snd (createSharedMemory m k attached)))
           = [sys_ftok SharedMemory, sys_get SharedMemory CREAT_EXCL, sys_get SharedMemory NO_FLAGS,
              sys_rmid SharedMemory (get_existing k), sys_get SharedMemory CREAT]
      \<and> (get_creat k \<noteq> -1 \<longrightarrow> shm_id (fst (snd (createSharedMemory m k attached))) = get_creat k
            \<and> shared_data (fst (snd (createSharedMemory m k attached))) = attached)"
    by (simp add: createSharedMemory_def)
  have e1: "ftok_key k \<noteq> -1 \<and> get_excl k = -1 \<and> get_excl_errno k = EEXIST \<and> get_existing k \<noteq> -1 \<longrightarrow>
      fst (createSemaphores m k n setval)
           = (get_creat k \<noteq> -1 \<and> (\<forall>i<n. setval i \<noteq> -1))
      \<and> take 5 (snd (snd (createSemaphores m k n setval)))
           = [sys_ftok Semaphores, sys_get Semaphores CREAT_EXCL, sys_get Semaphores NO_FLAGS,
              sys_rmid Semaphores (get_existing k), sys_get Semaphores CREAT]
      \<and> (get_creat k \<noteq> -1 \<longrightarrow> sem_id (fst (snd (createSemaphores m k n setval))) = get_creat k)"
    by (simp add: createSemaphores_def sem)
  have q2: "\<not> fst (createMessageQueue m k) \<longleftrightarrow>
        ftok_key k = -1 \<or> (get_excl k = -1 \<and> get_excl_errno k \<noteq> EEXIST)
        \<or> (get_excl k = -1 \<and> get_creat k = -1)"
    by (auto simp: createMessageQueue_def)
  have s2: "\<not> fst (createSharedMemory m k attached) \<longleftrightarrow>
        ftok_key k = -1 \<or> (get_excl k = -1 \<and> get_excl_errno k \<noteq> EEXIST)
        \<or> (get_excl k = -1 \<and> get_creat k = -1) \<or> attached = None"
    by (auto simp: createSharedMemory_def)
  have e2: "\<not> fst (createSemaphores m k n setval) \<longleftrightarrow>
        ftok_key k = -1 \<or> (get_excl k = -1 \<and> get_excl_errno k \<noteq> EEXIST)
        \<or> (get_excl k = -1 \<and> get_creat k = -1) \<or> (\<exists>i<n. setval i = -1)"
    by (auto simp: createSemaphores_def sem)
  from q1 s1 e1 q2 s2 e2 show ?thesis by blast
qed

theorem create_over_existing_witness:
  "createMessageQueue ipc_blank leftover
     = (True, ipc_blank\<lparr>msg_queue_id := 8\<rparr>,
        [sys_ftok MessageQueue, sys_get MessageQueue CREAT_EXCL, sys_get MessageQueue NO_FLAGS,
         sys_rmid MessageQueue 7, sys_get MessageQueue CREAT])
   \<and> fst (createSharedMemory ipc_blank leftover (shared_data ipc_fresh))
   \<and> fst (createSemaphores ipc_blank leftover 2 (\<lambda>i. 0))
   \<and> \<not> fst (createSemaphores ipc_blank (leftover\<lparr>get_creat := -1\<rparr>) 2 (\<lambda>i. 0))"
proof -
  have h: "ftok_key leftover \<noteq> -1 \<and> get_excl leftover = -1 \<and> get_excl_errno leftover = EEXIST
      \<and> get_existing leftover \<noteq> -1" and c: "get_creat leftover = 8"
    by (simp_all add: leftover_def)
  note t = create_over_existing [of leftover ipc_blank "shared_data ipc_fresh" 2 "\<lambda>i. 0"]
  from t h c have a: "fst (createMessageQueue ipc_blank leftover)"
    and b: "msg_queue_id (fst (snd (createMessageQueue ipc_blank leftover))) = 8"
    and d: "snd (snd (createMessageQueue ipc_blank leftover))
        = [sys_ftok MessageQueue, sys_get MessageQueue CREAT_EXCL, sys_get MessageQueue NO_FLAGS,
         sys_rmid MessageQueue 7, sys_get MessageQueue CREAT]"
    and s: "fst (createSharedMemory ipc_blank leftover (shared_data ipc_fresh))"
    and e: "fst (createSemaphores ipc_blank leftover 2 (\<lambda>i. 0))"
    by (simp_all add: shared_fresh leftover_def)
  have m: "fst (snd (createMessageQueue ipc_blank leftover)) = ipc_blank\<lparr>msg_queue_id := 8\<rparr>"
    by (simp add: createMessageQueue_def leftover_def)
  note t2 = create_over_existing [of "leftover\<lparr>get_creat := -1\<rparr>" ipc_blank None 2 "\<lambda>i. 0"]
  from t2 have f: "\<not> fst (createSemaphores ipc_blank (leftover\<lparr>get_creat := -1\<rparr>) 2 (\<lambda>i. 0))"
    by (simp add: leftover_def)
  from a d m have "createMessageQueue ipc_blank leftover
     = (True, ipc_blank\<lparr>msg_queue_id := 8\<rparr>,
        [sys_ftok MessageQueue, sys_get MessageQueue CREAT_EXCL, sys_get MessageQueue NO_FLAGS,
         sys_rmid MessageQueue 7, sys_get MessageQueue CREAT])"
    by (cases "createMessageQueue ipc_blank leftover") auto
  with s e f show ?thesis by blast
qed

section \<open>Sending never blocks and never stops the sender\<close>

lemma sendMessage_result:
  "sendMessage m q message =
     (if deliverable m q
      then Some (True, q\<lparr>q_msgs := q_msgs q @ [message]\<rparr>,
                 [(TRACE, ''Message sent: type={}, from={}, to={}'')])
      else Some (False, q,
        if \<not> initialized m \<or> msg_queue_id m = -1
        then [(ERROR, ''IPC manager not initialized or message queue not available'')]
        else if q_fault q = None \<or> q_fault q = Some EAGAIN then []
        else [(ERROR, ''Failed to send message: {}'')]))"
  by (auto simp: sendMessage_def msgsnd_def deliverable_def split: option.splits)

lemma send_or_warn_result:
  "send_or_warn message warning w =
     (if deliverable (ww_ipc w) (ww_queue w)
      then Some (w\<lparr>ww_queue := (ww_queue w)\<lparr>q_msgs := q_msgs (ww_queue w) @ [message]\<rparr>,
                   ww_log := ww_log w @ [(TRACE, ''Message sent: type={}, from={}, to={}'')]\<rparr>)
      else Some (w\<lparr>ww_queue := ww_queue w,
                   ww_log := ww_log w
                     @ (if \<not> initialized (ww_ipc w) \<or> msg_queue_id (ww_ipc w) = -1
                        then [(ERROR, ''IPC manager not initialized or message queue not available'')]
                        else if q_fault (ww_queue w) = None \<or> q_fault (ww_queue w) = Some EAGAIN
                        then []
                        else [(ERROR, ''Failed to send message: {}'')])
                     @ [(WARN, warning)]\<rparr>))"
  by (simp add: send_or_warn_def sendMessage_result)

text \<open>
  C6. \<open>sendMessage\<close> always returns (the system call is made with IPC_NOWAIT and is never
  suspended), with true exactly when the message was queued; when the manager is not
  initialised, has no queue, or the queue is full, it returns false and leaves the queue
  as it was. Each of the four senders of the worker returns as well: after a failed send
  it has logged its warning, the queue is unchanged and the worker's \<open>running_\<close> flag is
  what it was, so the worker goes on.
\<close>

theorem sendMessage_non_blocking:
  "(\<exists>ok q' lg. sendMessage m q message = Some (ok, q', lg)
       \<and> ok = deliverable m q
       \<and> q' = (if ok then q\<lparr>q_msgs := q_msgs q @ [message]\<rparr> else q))
   \<and> (\<not> initialized m \<or> msg_queue_id m = -1 \<or> q_capacity q \<le> length (q_msgs q)
        \<longrightarrow> (\<exists>lg. sendMessage m q message = Some (False, q, lg)))
   \<and> (\<exists>w'. sendHeartbeat env w = Some w'
        \<and> wp_running (ww_self w') = wp_running (ww_self w)
        \<and> (\<not> deliverable (ww_ipc w) (ww_queue w) \<longrightarrow> ww_queue w' = ww_queue w
              \<and> (WARN, ''Failed to send heartbeat for worker {}'') \<in> set (ww_log w')))
   \<and> (\<exists>w'. sendStatusUpdate env st w = Some w'
        \<and> ww_self w' = ww_self w
        \<and> (\<not> deliverable (ww_ipc w) (ww_queue w) \<longrightarrow> ww_queue w' = ww_queue w
              \<and> (WARN, ''Failed to send status update for worker {}'') \<in> set (ww_log w')))
   \<and> (\<exists>w'. sendErrorReport env text w = Some w'
        \<and> ww_self w' = ww_self w
        \<and> (\<not> deliverable (ww_ipc w) (ww_queue w) \<longrightarrow> ww_queue w' = ww_queue w
              \<and> (WARN, ''Failed to send error report for worker {}'') \<in> set (ww_log w')))
   \<and> (\<exists>w'. sendStatistics env w = Some w'
        \<and> ww_self w' = ww_self w
        \<and> (\<not> deliverable (ww_ipc w) (ww_queue w) \<longrightarrow> ww_queue w' = ww_queue w
              \<and> (WARN, ''Failed to send statistics for worker {}'') \<in> set (ww_log w')))"
proof -
  have a: "\<exists>ok q' lg. sendMessage m q message = Some (ok, q', lg)
       \<and> ok = deliverable m q
       \<and> q' = (if ok then q\<lparr>q_msgs := q_msgs q @ [message]\<rparr> else q)"
    by (simp add: sendMessage_result)
  have b: "\<not> initialized m \<or> msg_queue_id m = -1 \<or> q_capacity q \<le> length (q_msgs q)
        \<longrightarrow> (\<exists>lg. sendMessage m q message = Some (False, q, lg))"
    by (auto simp: sendMessage_result deliverable_def)
  have c: "\<exists>w'. sendHeartbeat env w = Some w'
        \<and> wp_running (ww_self w') = wp_running (ww_self w)
        \<and> (\<not> deliverable (ww_ipc w) (ww_queue w) \<longrightarrow> ww_queue w' = ww_queue w
              \<and> (WARN, ''Failed to send heartbeat for worker {}'') \<in> set (ww_log w'))"
    by (simp add: sendHeartbeat_def send_or_warn_result)
  have d: "\<exists>w'. sendStatusUpdate env st w = Some w'
        \<and> ww_self w' = ww_self w
        \<and> (\<not> deliverable (ww_ipc w) (ww_queue w) \<longrightarrow> ww_queue w' = ww_queue w
              \<and> (WARN, ''Failed to send status update for worker {}'') \<in> set (ww_log w'))"
    by (simp add: sendStatusUpdate_def send_or_warn_result)
  have e: "\<exists>w'. sendErrorReport env text w = Some w'
        \<and> ww_self w' = ww_self w
        \<and> (\<not> deliverable (ww_ipc w) (ww_queue w) \<longrightarrow> ww_queue w' = ww_queue w
              \<and> (WARN, ''Failed to send error report for worker {}'') \<in> set (ww_log w'))"
    by (simp add: sendErrorReport_def send_or_warn_result)
  have f: "\<exists>w'. sendStatistics env w = Some w'
        \<and> ww_self w' = ww_self w
        \<and> (\<not> deliverable (ww_ipc w) (ww_queue w) \<longrightarrow> ww_queue w' = ww_queue w
              \<and> (WARN, ''Failed to send statistics for worker {}'') \<in> set (ww_log w'))"
    by (simp add: sendStatistics_def send_or_warn_result)
  from a b c d e f show ?thesis by blast
qed

theorem sendMessage_non_blocking_witness:
  "map_option fst (sendMessage ipc_started queue_full (heartbeat_message env_one worker_one)) = Some False
   \<and> map_option (fst \<circ> snd) (sendMessage ipc_started queue_full (heartbeat_message env_one worker_one))
       = Some queue_full
   \<and> map_option fst (sendMessage ipc_blank queue_empty (heartbeat_message env_one worker_one)) = Some False
   \<and> map_option fst (sendMessage ipc_started queue_empty (heartbeat_message env_one worker_one)) = Some True
   \<and> map_option (wp_running \<circ> ww_self) (sendHeartbeat env_one (world_one\<lparr>ww_queue := queue_full\<rparr>))
       = Some True
   \<and> map_option ww_queue (sendHeartbeat env_one (world_one\<lparr>ww_queue := queue_full\<rparr>))
       = Some queue_full
   \<and> map_option ww_log (sendHeartbeat env_one (world_one\<lparr>ww_queue := queue_full\<rparr>))
       = Some [(WARN, ''Failed to send heartbeat for worker {}'')]"
proof -
  let ?hb = "heartbeat_message env_one worker_one"
  let ?w = "world_one\<lparr>ww_queue := queue_full\<rparr>"
  have full: "q_capacity queue_full \<le> length (q_msgs queue_full)"
    by (simp add: queue_full_def)
  have nd: "\<not> deliverable (ww_ipc ?w) (ww_queue ?w)"
    by (simp add: deliverable_def queue_full_def)
  have rn: "wp_running (ww_self ?w)"
    by (simp add: world_one_def worker_one_def)
  have blank: "\<not> initialized ipc_blank"
    by (simp add: ipc_blank_def)
  have init: "initialized ipc_started" "msg_queue_id ipc_started = 0"
    by (simp_all add: ipc_started_eq ipc_fresh_def initializeSharedData_def)
  have dl: "deliverable ipc_started queue_empty"
    using init by (simp add: deliverable_def queue_empty_def)
  note t = sendMessage_non_blocking [of ipc_started queue_full ?hb env_one ?w RUNNING "''x''"]
  from t full obtain lg where a: "sendMessage ipc_started queue_full ?hb = Some (False, queue_full, lg)"
    by blast
  from t nd rn obtain w' where b: "sendHeartbeat env_one ?w = Some w'"
    "wp_running (ww_self w')" "ww_queue w' = queue_full"
    by auto
  have lgs: "map_option ww_log (sendHeartbeat env_one ?w)
       = Some [(WARN, ''Failed to send heartbeat for worker {}'')]"
    using nd init
    by (simp add: sendHeartbeat_def send_or_warn_result sendMessage_result world_one_def
        queue_full_def)
  note t2 = sendMessage_non_blocking [of ipc_blank queue_empty ?hb env_one ?w RUNNING "''x''"]
  from t2 blank obtain lg2 where c: "sendMessage ipc_blank queue_empty ?hb = Some (False, queue_empty, lg2)"
    by blast
  note t3 = sendMessage_non_blocking [of ipc_started queue_empty ?hb env_one ?w RUNNING "''x''"]
  from t3 dl obtain q3 lg3 where d: "sendMessage ipc_started queue_empty ?hb = Some (True, q3, lg3)"
    by auto
  from a b c d lgs show ?thesis by simp
qed

section \<open>The worker's loop: what each step leaves alone\<close>

lemma send_or_warn_frame:
  "\<exists>w'. send_or_warn message warning w = Some w'
      \<and> ww_self w' = ww_self w \<and> ww_ipc w' = ww_ipc w \<and> ww_sink w' = ww_sink w
      \<and> set (q_msgs (ww_queue w)) \<subseteq> set (q_msgs (ww_queue w'))
      \<and> (deliverable (ww_ipc w) (ww_queue w) \<longrightarrow> message \<in> set (q_msgs (ww_queue w')))
      \<and> (\<not> deliverable (ww_ipc w) (ww_queue w) \<longrightarrow> (WARN, warning) \<in> set (ww_log w'))
      \<and> set (ww_log w) \<subseteq> set (ww_log w')"
  by (auto simp: send_or_warn_result)

lemma flushDataBuffer_frame:
  "ww_ipc (flushDataBuffer env dt w) = ww_ipc w
   \<and> ww_queue (flushDataBuffer env dt w) = ww_queue w
   \<and> ww_log (flushDataBuffer env dt w) = ww_log w
   \<and> wp_last_heartbeat_time (ww_self (flushDataBuffer env dt w)) = wp_last_heartbeat_time (ww_self w)
   \<and> wp_db_manager (ww_self (flushDataBuffer env dt w)) = wp_db_manager (ww_self w)
   \<and> wp_sdk (ww_self (flushDataBuffer env dt w)) = wp_sdk (ww_self w)
   \<and> wp_running (ww_self (flushDataBuffer env dt w)) = wp_running (ww_self w)
   \<and> wp_worker_id (ww_self (flushDataBuffer env dt w)) = wp_worker_id (ww_self w)"
  by (simp add: flushDataBuffer_def clear_buffer_def count_error_def count_sent_def
      split: option.splits db_result.splits)

lemma flushDataBuffer_other:
  "t \<noteq> dt \<Longrightarrow> wp_data_buffers (ww_self (flushDataBuffer env dt w)) t = wp_data_buffers (ww_self w) t"
  by (simp add: flushDataBuffer_def clear_buffer_def count_error_def count_sent_def
      split: option.splits db_result.splits)

lemma flushDataBuffer_sink:
  "wp_db_manager (ww_self w) \<Longrightarrow> wp_data_buffers (ww_self w) dt = Some buf \<Longrightarrow> buf \<noteq> [] \<Longrightarrow>
     ww_sink (flushDataBuffer env dt w) = ww_sink w @ [buf]"
  by (simp add: flushDataBuffer_def split: db_result.splits)

lemma flushDataBuffer_cleared:
  "wp_data_buffers (ww_self w) dt = Some buf \<Longrightarrow>
   e_saveMarketDataBatch env (length (ww_sink w)) buf \<noteq> Threw \<Longrightarrow>
     wp_data_buffers (ww_self (flushDataBuffer env dt w)) dt = Some []"
  by (simp add: flushDataBuffer_def clear_buffer_def count_error_def count_sent_def
      split: db_result.splits)

lemma flush_each_frame:
  "ww_ipc (flush_each env ts w) = ww_ipc w
   \<and> ww_queue (flush_each env ts w) = ww_queue w
   \<and> ww_log (flush_each env ts w) = ww_log w
   \<and> wp_last_heartbeat_time (ww_self (flush_each env ts w)) = wp_last_heartbeat_time (ww_self w)
   \<and> wp_db_manager (ww_self (flush_each env ts w)) = wp_db_manager (ww_self w)
   \<and> wp_sdk (ww_self (flush_each env ts w)) = wp_sdk (ww_self w)
   \<and> wp_running (ww_self (flush_each env ts w)) = wp_running (ww_self w)
   \<and> wp_worker_id (ww_self (flush_each env ts w)) = wp_worker_id (ww_self w)"
  by (induction ts arbitrary: w) (simp_all add: flushDataBuffer_frame split: option.splits)

lemma flush_each_other:
  "t \<notin> set ts \<Longrightarrow> wp_data_buffers (ww_self (flush_each env ts w)) t = wp_data_buffers (ww_self w) t"
  by (induction ts arbitrary: w) (auto simp: flushDataBuffer_other split: option.splits)

lemma map_filter_cong_set:
  "(\<And>x. x \<in> set xs \<Longrightarrow> f x = g x) \<Longrightarrow> List.map_filter f xs = List.map_filter g xs"
  by (induction xs) (auto simp: List.map_filter_simps split: option.splits)

lemma flush_each_sink:
  assumes "wp_db_manager (ww_self w)" and "distinct ts"
  shows "ww_sink (flush_each env ts w)
           = ww_sink w @ filter (\<lambda>buf. buf \<noteq> []) (List.map_filter (wp_data_buffers (ww_self w)) ts)"
  using assms
proof (induction ts arbitrary: w)
  case Nil
  then show ?case by (simp add: List.map_filter_simps)
next
  case (Cons dt rest)
  show ?case
  proof (cases "wp_data_buffers (ww_self w) dt")
    case None
    with Cons show ?thesis by (simp add: List.map_filter_simps)
  next
    case (Some buf)
    show ?thesis
    proof (cases "buf = []")
      case True
      with Some Cons show ?thesis by (simp add: List.map_filter_simps)
    next
      case False
      let ?w1 = "flushDataBuffer env dt w"
      have db: "wp_db_manager (ww_self ?w1)"
        using Cons.prems(1) by (simp add: flushDataBuffer_frame)
      have same: "List.map_filter (wp_data_buffers (ww_self ?w1)) rest
          = List.map_filter (wp_data_buffers (ww_self w)) rest"
        using Cons.prems(2) by (intro map_filter_cong_set flushDataBuffer_other) auto
      from Cons.IH [OF db] Cons.prems(2)
      have "ww_sink (flush_each env rest ?w1)
          = ww_sink ?w1 @ filter (\<lambda>buf. buf \<noteq> []) (List.map_filter (wp_data_buffers (ww_self w)) rest)"
        by (simp add: same)
      with Some False Cons.prems(1) show ?thesis
        by (simp add: List.map_filter_simps flushDataBuffer_sink)
    qed
  qed
qed

lemma flush_each_cleared:
  assumes "\<And>i batch. e_saveMarketDataBatch env i batch \<noteq> Threw" and "distinct ts" and "t \<in> set ts"
  shows "wp_data_buffers (ww_self (flush_each env ts w)) t = None
       \<or> wp_data_buffers (ww_self (flush_each env ts w)) t = Some []"
  using assms(2,3)
proof (induction ts arbitrary: w)
  case Nil
  then show ?case by simp
next
  case (Cons dt rest)
  show ?case
  proof (cases "t = dt")
    case False
    with Cons show ?thesis by (auto split: option.splits)
  next
    case True
    with Cons.prems have notin: "t \<notin> set rest" by simp
    show ?thesis
    proof (cases "wp_data_buffers (ww_self w) dt")
      case None
      with True notin show ?thesis by (simp add: flush_each_other)
    next
      case (Some buf)
      with True notin assms(1) show ?thesis
        by (auto simp: flush_each_other flushDataBuffer_cleared)
    qed
  qed
qed

lemma flushDataBuffers_sink:
  "wp_db_manager (ww_self w) \<Longrightarrow> ww_sink (flushDataBuffers env w) = ww_sink w @ pending (ww_self w)"
  unfolding flushDataBuffers_def pending_def
  by (rule flush_each_sink) (simp_all add: all_types_def)

lemma flushDataBuffers_cleared:
  assumes "\<And>i batch. e_saveMarketDataBatch env i batch \<noteq> Threw"
  shows "pending (ww_self (flushDataBuffers env w)) = []"
proof -
  have "t \<in> set all_types" for t
    by (cases t) (simp_all add: all_types_def)
  then have "wp_data_buffers (ww_self (flushDataBuffers env w)) t = None
       \<or> wp_data_buffers (ww_self (flushDataBuffers env w)) t = Some []" for t
    unfolding flushDataBuffers_def
    by (intro flush_each_cleared assms) (simp_all add: all_types_def)
  then have "buf = []" if "wp_data_buffers (ww_self (flushDataBuffers env w)) t = Some buf" for t buf
    using that by (metis option.distinct(1) option.inject)
  then show ?thesis
    by (auto simp: pending_def filter_empty_conv List.map_filter_def)
qed

lemma processIPCMessages_frame:
  "\<exists>w1. processIPCMessages w = Some w1
      \<and> ww_ipc w1 = ww_ipc w \<and> ww_sink w1 = ww_sink w \<and> ww_log w1 = ww_log w
      \<and> (ww_self w1)\<lparr>wp_running := True\<rparr> = (ww_self w)\<lparr>wp_running := True\<rparr>
      \<and> q_capacity (ww_queue w1) = q_capacity (ww_queue w)
      \<and> q_fault (ww_queue w1) = q_fault (ww_queue w)
      \<and> (initialized (ww_ipc w) \<and> msg_queue_id (ww_ipc w) \<noteq> -1 \<and> q_fault (ww_queue w) = None
            \<longrightarrow> q_msgs (ww_queue w1) = [])"
proof (induction w rule: processIPCMessages.induct)
  case (1 w)
  show ?case
  proof (cases "receiveMessage (ww_ipc w) (ww_queue w) ANY False")
    case None
    then show ?thesis
      by (auto simp: receiveMessage_def msgrcv_def split: if_splits option.splits)
  next
    case (Some r)
    show ?thesis
    proof (cases "fst r")
      case None
      from Some None have "initialized (ww_ipc w) \<and> msg_queue_id (ww_ipc w) \<noteq> -1
            \<and> q_fault (ww_queue w) = None \<longrightarrow> q_msgs (ww_queue w) = []"
        by (cases "q_msgs (ww_queue w)")
           (auto simp: receiveMessage_def msgrcv_def wanted_def split: if_splits option.splits)
      with Some None show ?thesis
        by (subst processIPCMessages.simps) simp
    next
      case got: (Some message)
      let ?w' = "handle_control message (w\<lparr>ww_queue := snd r\<rparr>)"
      from Some got have q: "q_capacity (snd r) = q_capacity (ww_queue w)"
        "q_fault (snd r) = q_fault (ww_queue w)"
        by (auto simp: receiveMessage_def msgrcv_def split: if_splits option.splits)
      have h: "ww_ipc ?w' = ww_ipc w" "ww_sink ?w' = ww_sink w" "ww_log ?w' = ww_log w"
        "ww_queue ?w' = snd r"
        "(ww_self ?w')\<lparr>wp_running := True\<rparr> = (ww_self w)\<lparr>wp_running := True\<rparr>"
        by (simp_all add: handle_control_def handleReload_def split: MessageType.splits)
      from "1.IH" [OF Some got] obtain w1 where p: "processIPCMessages ?w' = Some w1"
        and f: "ww_ipc w1 = ww_ipc ?w'" "ww_sink w1 = ww_sink ?w'" "ww_log w1 = ww_log ?w'"
        "(ww_self w1)\<lparr>wp_running := True\<rparr> = (ww_self ?w')\<lparr>wp_running := True\<rparr>"
        "q_capacity (ww_queue w1) = q_capacity (ww_queue ?w')"
        "q_fault (ww_queue w1) = q_fault (ww_queue ?w')"
        and e: "initialized (ww_ipc ?w') \<and> msg_queue_id (ww_ipc ?w') \<noteq> -1 \<and> q_fault (ww_queue ?w') = None
            \<longrightarrow> q_msgs (ww_queue w1) = []"
        by blast
      have run: "processIPCMessages w = Some w1"
        using Some got p by (subst processIPCMessages.simps) simp
      have self: "(ww_self w1)\<lparr>wp_running := True\<rparr> = (ww_self w)\<lparr>wp_running := True\<rparr>"
        using f(4) h(5) by (rule trans)
      have rest: "ww_ipc w1 = ww_ipc w" "ww_sink w1 = ww_sink w" "ww_log w1 = ww_log w"
        "q_capacity (ww_queue w1) = q_capacity (ww_queue w)"
        "q_fault (ww_queue w1) = q_fault (ww_queue w)"
        using f(1,2,3,5,6) h(1,2,3,4) q by simp_all
      have empty: "initialized (ww_ipc w) \<and> msg_queue_id (ww_ipc w) \<noteq> -1 \<and> q_fault (ww_queue w) = None
            \<longrightarrow> q_msgs (ww_queue w1) = []"
        using e h(1,4) q(2) by simp
      from run self rest empty show ?thesis
        by blast
    qed
  qed
qed

lemma same_but_running:
  assumes "a\<lparr>wp_running := True\<rparr> = b\<lparr>wp_running := True\<rparr>"
  shows "wp_worker_id a = wp_worker_id b" and "wp_sdk a = wp_sdk b"
    and "wp_db_manager a = wp_db_manager b"
    and "wp_last_heartbeat_time a = wp_last_heartbeat_time b"
    and "wp_data_buffers a = wp_data_buffers b" and "wp_statistics a = wp_statistics b"
  using assms by (cases a; cases b; simp)+

lemma sendHeartbeat_effect:
  "\<exists>w'. sendHeartbeat env w = Some w'
      \<and> ww_self w' = (ww_self w)\<lparr>wp_last_heartbeat_time := e_time env\<rparr>
      \<and> ww_ipc w' = ww_ipc w \<and> ww_sink w' = ww_sink w
      \<and> (deliverable (ww_ipc w) (ww_queue w)
            \<longrightarrow> heartbeat_message env (ww_self w) \<in> set (q_msgs (ww_queue w')))
      \<and> (\<not> deliverable (ww_ipc w) (ww_queue w)
            \<longrightarrow> (WARN, ''Failed to send heartbeat for worker {}'') \<in> set (ww_log w'))"
  by (auto simp: sendHeartbeat_def send_or_warn_result)

lemma stats_step_frame:
  "\<exists>s'. stats_step env tk s = Some s'
      \<and> ww_self (snd s') = ww_self (snd s) \<and> ww_ipc (snd s') = ww_ipc (snd s)
      \<and> ww_sink (snd s') = ww_sink (snd s)
      \<and> set (q_msgs (ww_queue (snd s))) \<subseteq> set (q_msgs (ww_queue (snd s')))
      \<and> set (ww_log (snd s)) \<subseteq> set (ww_log (snd s'))
      \<and> last_heartbeat_at (fst s') = last_heartbeat_at (fst s)
      \<and> last_flush (fst s') = last_flush (fst s)"
proof (cases "stats_interval \<le> t_now tk - last_stats (fst s)")
  case False
  then show ?thesis by (simp add: stats_step_def)
next
  case True
  from send_or_warn_frame obtain w' where
    "sendStatistics env (snd s) = Some w'" "ww_self w' = ww_self (snd s)"
    "ww_ipc w' = ww_ipc (snd s)" "ww_sink w' = ww_sink (snd s)"
    "set (q_msgs (ww_queue (snd s))) \<subseteq> set (q_msgs (ww_queue w'))"
    "set (ww_log (snd s)) \<subseteq> set (ww_log w')"
    unfolding sendStatistics_def by blast
  with True show ?thesis by (simp add: stats_step_def)
qed

lemma reconnect_step_frame:
  "\<exists>s'. reconnect_step env tk s = Some s'
      \<and> ww_self (snd s') = ww_self (snd s) \<and> ww_ipc (snd s') = ww_ipc (snd s)
      \<and> ww_sink (snd s') = ww_sink (snd s)
      \<and> set (q_msgs (ww_queue (snd s))) \<subseteq> set (q_msgs (ww_queue (snd s')))
      \<and> set (ww_log (snd s)) \<subseteq> set (ww_log (snd s'))
      \<and> fst s' = fst s"
proof (cases "wp_sdk (ww_self (snd s)) \<and> \<not> t_sdk_connected tk \<and> \<not> t_reconnect_ok tk")
  case False
  then show ?thesis by (cases s) (auto simp: reconnect_step_def handleReconnection_def)
next
  case True
  from send_or_warn_frame obtain w' where
    "sendErrorReport env ''Reconnection failed'' (snd s) = Some w'" "ww_self w' = ww_self (snd s)"
    "ww_ipc w' = ww_ipc (snd s)" "ww_sink w' = ww_sink (snd s)"
    "set (q_msgs (ww_queue (snd s))) \<subseteq> set (q_msgs (ww_queue w'))"
    "set (ww_log (snd s)) \<subseteq> set (ww_log w')"
    unfolding sendErrorReport_def by blast
  with True show ?thesis by (simp add: reconnect_step_def handleReconnection_def)
qed

lemma flush_step_frame:
  "ww_ipc (snd (flush_step env tk s)) = ww_ipc (snd s)
   \<and> ww_queue (snd (flush_step env tk s)) = ww_queue (snd s)
   \<and> ww_log (snd (flush_step env tk s)) = ww_log (snd s)
   \<and> wp_last_heartbeat_time (ww_self (snd (flush_step env tk s)))
        = wp_last_heartbeat_time (ww_self (snd s))
   \<and> last_heartbeat_at (fst (flush_step env tk s)) = last_heartbeat_at (fst s)"
  by (simp add: flush_step_def flushDataBuffers_def flush_each_frame)

lemma mainLoop_body_steps:
  assumes "\<not> t_shutdown_requested tk" and "\<not> getShutdownFlag (ww_ipc w)"
  shows "\<exists>w1 s2 s4 s5. processIPCMessages w = Some w1
      \<and> heartbeat_step env tk (l, w1) = Some s2
      \<and> stats_step env tk (flush_step env tk s2) = Some s4
      \<and> reconnect_step env tk s4 = Some s5
      \<and> mainLoop_body env tk (l, w) = Some (Continue s5)"
proof -
  from processIPCMessages_frame obtain w1 where w1: "processIPCMessages w = Some w1"
    by blast
  from sendHeartbeat_effect obtain w2 where "sendHeartbeat env w1 = Some w2"
    by blast
  then have "\<exists>s2. heartbeat_step env tk (l, w1) = Some s2"
    by (simp add: heartbeat_step_def)
  then obtain s2 where s2: "heartbeat_step env tk (l, w1) = Some s2"
    by blast
  from stats_step_frame obtain s4 where s4: "stats_step env tk (flush_step env tk s2) = Some s4"
    by blast
  from reconnect_step_frame obtain s5 where s5: "reconnect_step env tk s4 = Some s5"
    by blast
  from assms w1 s2 s4 s5 have "mainLoop_body env tk (l, w) = Some (Continue s5)"
    by (simp add: mainLoop_body_def handleReload_def)
  with w1 s2 s4 s5 show ?thesis by blast
qed

section \<open>The heartbeat step\<close>

text \<open>
  C7, as the code has it. In a pass through the loop body that gets past the shutdown
  checks and finds the heartbeat interval (30 seconds) elapsed, the worker sends one
  Heartbeat message (which is queued when the channel takes it, and otherwise logged as
  failed), notes the wall-clock time in its own member \<open>last_heartbeat_time_\<close> and the
  steady-clock time in the loop's \<open>last_heartbeat\<close>; the shared region, and with it the
  worker's entry in the table, is what it was before the pass.
\<close>

theorem mainLoop_heartbeat:
  assumes "\<not> t_shutdown_requested tk" and "\<not> getShutdownFlag (ww_ipc w)"
    and "heartbeat_interval \<le> t_now tk - last_heartbeat_at l"
  shows "\<exists>l' w'. mainLoop_body env tk (l, w) = Some (Continue (l', w'))
      \<and> last_heartbeat_at l' = t_now tk
      \<and> wp_last_heartbeat_time (ww_self w') = e_time env
      \<and> ww_ipc w' = ww_ipc w
      \<and> table_heartbeat (ww_ipc w') (e_getpid env) = table_heartbeat (ww_ipc w) (e_getpid env)
      \<and> (if initialized (ww_ipc w) \<and> msg_queue_id (ww_ipc w) \<noteq> -1
             \<and> q_fault (ww_queue w) = None \<and> 0 < q_capacity (ww_queue w)
          then heartbeat_message env (ww_self w) \<in> set (q_msgs (ww_queue w'))
          else (WARN, ''Failed to send heartbeat for worker {}'') \<in> set (ww_log w'))"
proof -
  from mainLoop_body_steps [OF assms(1,2)] obtain w1 s2 s4 s5 where
    w1: "processIPCMessages w = Some w1"
    and s2: "heartbeat_step env tk (l, w1) = Some s2"
    and s4: "stats_step env tk (flush_step env tk s2) = Some s4"
    and s5: "reconnect_step env tk s4 = Some s5"
    and body: "mainLoop_body env tk (l, w) = Some (Continue s5)"
    by blast
  from processIPCMessages_frame [of w] w1 have f1: "ww_ipc w1 = ww_ipc w"
    and self1: "(ww_self w1)\<lparr>wp_running := True\<rparr> = (ww_self w)\<lparr>wp_running := True\<rparr>"
    and cap1: "q_capacity (ww_queue w1) = q_capacity (ww_queue w)"
    and fault1: "q_fault (ww_queue w1) = q_fault (ww_queue w)"
    and empty1: "initialized (ww_ipc w) \<and> msg_queue_id (ww_ipc w) \<noteq> -1 \<and> q_fault (ww_queue w) = None
            \<longrightarrow> q_msgs (ww_queue w1) = []"
    by auto
  have del: "deliverable (ww_ipc w1) (ww_queue w1) \<longleftrightarrow>
      initialized (ww_ipc w) \<and> msg_queue_id (ww_ipc w) \<noteq> -1
             \<and> q_fault (ww_queue w) = None \<and> 0 < q_capacity (ww_queue w)"
    using f1 cap1 fault1 empty1 by (auto simp: deliverable_def)
  have hb: "heartbeat_message env (ww_self w1) = heartbeat_message env (ww_self w)"
    using same_but_running(1) [OF self1] by (simp add: heartbeat_message_def)
  from sendHeartbeat_effect [of env w1] obtain w2 where
    sh: "sendHeartbeat env w1 = Some w2"
    and w2: "wp_last_heartbeat_time (ww_self w2) = e_time env" "ww_ipc w2 = ww_ipc w1"
    and q2: "deliverable (ww_ipc w1) (ww_queue w1)
            \<longrightarrow> heartbeat_message env (ww_self w1) \<in> set (q_msgs (ww_queue w2))"
    and lg2: "\<not> deliverable (ww_ipc w1) (ww_queue w1)
            \<longrightarrow> (WARN, ''Failed to send heartbeat for worker {}'') \<in> set (ww_log w2)"
    by auto
  from s2 sh assms(3) have s2_eq: "s2 = (l\<lparr>last_heartbeat_at := t_now tk\<rparr>, w2)"
    by (simp add: heartbeat_step_def)
  let ?s3 = "flush_step env tk s2"
  from flush_step_frame [of env tk s2] s2_eq have f3: "ww_ipc (snd ?s3) = ww_ipc w2"
    "ww_queue (snd ?s3) = ww_queue w2" "ww_log (snd ?s3) = ww_log w2"
    "wp_last_heartbeat_time (ww_self (snd ?s3)) = wp_last_heartbeat_time (ww_self w2)"
    "last_heartbeat_at (fst ?s3) = t_now tk"
    by simp_all
  from stats_step_frame [of env tk ?s3] s4 have f4: "ww_self (snd s4) = ww_self (snd ?s3)"
    "ww_ipc (snd s4) = ww_ipc (snd ?s3)"
    "set (q_msgs (ww_queue (snd ?s3))) \<subseteq> set (q_msgs (ww_queue (snd s4)))"
    "set (ww_log (snd ?s3)) \<subseteq> set (ww_log (snd s4))"
    "last_heartbeat_at (fst s4) = last_heartbeat_at (fst ?s3)"
    by auto
  from reconnect_step_frame [of env tk s4] s5 have f5: "ww_self (snd s5) = ww_self (snd s4)"
    "ww_ipc (snd s5) = ww_ipc (snd s4)"
    "set (q_msgs (ww_queue (snd s4))) \<subseteq> set (q_msgs (ww_queue (snd s5)))"
    "set (ww_log (snd s4)) \<subseteq> set (ww_log (snd s5))"
    "fst s5 = fst s4"
    by auto
  have a: "last_heartbeat_at (fst s5) = t_now tk"
    using f5(5) f4(5) f3(5) by simp
  have b: "wp_last_heartbeat_time (ww_self (snd s5)) = e_time env"
    using f5(1) f4(1) f3(4) w2(1) by simp
  have c: "ww_ipc (snd s5) = ww_ipc w"
    using f5(2) f4(2) f3(1) w2(2) f1 by simp
  have d: "heartbeat_message env (ww_self w) \<in> set (q_msgs (ww_queue (snd s5)))"
    if "initialized (ww_ipc w) \<and> msg_queue_id (ww_ipc w) \<noteq> -1
             \<and> q_fault (ww_queue w) = None \<and> 0 < q_capacity (ww_queue w)"
    using that del q2 hb f3(2) f4(3) f5(3) by auto
  have e: "(WARN, ''Failed to send heartbeat for worker {}'') \<in> set (ww_log (snd s5))"
    if "\<not> (initialized (ww_ipc w) \<and> msg_queue_id (ww_ipc w) \<noteq> -1
             \<and> q_fault (ww_queue w) = None \<and> 0 < q_capacity (ww_queue w))"
    using that del lg2 f3(3) f4(4) f5(4) by auto
  from body a b c d e show ?thesis
    by (intro exI [of _ "fst s5"] exI [of _ "snd s5"]) auto
qed

lemma world_one_ready:
  "\<not> t_shutdown_requested tick_due" "\<not> getShutdownFlag (ww_ipc world_one)"
  "heartbeat_interval \<le> t_now tick_due - last_heartbeat_at locals_zero"
  by (simp_all add: tick_due_def world_one_def ipc_started_eq getShutdownFlag_def
      heartbeat_interval_def locals_zero_def)

theorem mainLoop_heartbeat_witness:
  "\<exists>l' w'. mainLoop_body env_one tick_due (locals_zero, world_one) = Some (Continue (l', w'))
      \<and> last_heartbeat_at l' = 31000000000
      \<and> wp_last_heartbeat_time (ww_self w') = 100
      \<and> ww_ipc w' = ipc_started
      \<and> heartbeat_message env_one worker_one \<in> set (q_msgs (ww_queue w'))"
proof -
  have init: "initialized (ww_ipc world_one) \<and> msg_queue_id (ww_ipc world_one) \<noteq> -1
             \<and> q_fault (ww_queue world_one) = None \<and> 0 < q_capacity (ww_queue world_one)"
    by (simp add: world_one_def queue_empty_def ipc_started_eq ipc_fresh_def
        initializeSharedData_def)
  have e: "e_time env_one = 100" "ww_ipc world_one = ipc_started" "ww_self world_one = worker_one"
    "t_now tick_due = 31000000000"
    by (simp_all add: world_one_def env_one_def tick_due_def)
  from mainLoop_heartbeat [OF world_one_ready, of env_one] init
  obtain l' w' where "mainLoop_body env_one tick_due (locals_zero, world_one) = Some (Continue (l', w'))"
    "last_heartbeat_at l' = t_now tick_due"
    "wp_last_heartbeat_time (ww_self w') = e_time env_one"
    "ww_ipc w' = ww_ipc world_one"
    "heartbeat_message env_one (ww_self world_one) \<in> set (q_msgs (ww_queue w'))"
    by auto
  with e show ?thesis
    by auto
qed

text \<open>
  The claim as stated fails on this pass: the heartbeat is due and is sent, the wall
  clock reads 100, and the worker's entry in the shared table keeps the last-heartbeat
  time 0 it had before. And a pass that finds the shutdown signal pending leaves the
  loop before the heartbeat step, although the interval has elapsed.
\<close>

theorem mainLoop_heartbeat_table_counterexample:
  "mainLoop_body env_one tick_due (locals_zero, world_one) = Some (Continue (locals_due, world_after))
   \<and> q_msgs (ww_queue world_after) = [heartbeat_message env_one worker_one]
   \<and> e_time env_one = 100
   \<and> table_heartbeat (ww_ipc world_one) (e_getpid env_one) = Some 0
   \<and> table_heartbeat (ww_ipc world_after) (e_getpid env_one) = Some 0
   \<and> mainLoop_body env_one (tick_due\<lparr>t_shutdown_requested := True\<rparr>) (locals_zero, world_one)
       = Some (Break (locals_zero, world_one))"
proof -
  have brk: "mainLoop_body env_one (tick_due\<lparr>t_shutdown_requested := True\<rparr>) (locals_zero, world_one)
       = Some (Break (locals_zero, world_one))"
    by (simp add: mainLoop_body_def)
  have init: "initialized ipc_started" "msg_queue_id ipc_started = 0"
    by (simp_all add: ipc_started_eq ipc_fresh_def initializeSharedData_def)
  have p: "processIPCMessages world_one = Some world_one"
    using init
    by (subst processIPCMessages.simps)
       (simp add: world_one_def receiveMessage_def msgrcv_def queue_empty_def)
  have d: "deliverable (ww_ipc world_one) (ww_queue world_one)"
    using init by (simp add: deliverable_def world_one_def queue_empty_def)
  have h: "sendHeartbeat env_one world_one = Some world_after"
    using d
    by (simp add: sendHeartbeat_def send_or_warn_result world_after_def world_one_def env_one_def
        queue_empty_def)
  have hs: "heartbeat_step env_one tick_due (locals_zero, world_one)
      = Some (locals_zero\<lparr>last_heartbeat_at := 31000000000\<rparr>, world_after)"
    using h by (simp add: heartbeat_step_def heartbeat_interval_def tick_due_def locals_zero_def)
  have fl: "flushDataBuffers env_one world_after = world_after"
    by (simp add: flushDataBuffers_def all_types_def world_after_def world_one_def worker_one_def)
  have fs: "flush_step env_one tick_due (locals_zero\<lparr>last_heartbeat_at := 31000000000\<rparr>, world_after)
      = (locals_due, world_after)"
    using fl by (simp add: flush_step_def flush_interval_def env_one_def tick_due_def
        locals_zero_def locals_due_def)
  have ss: "stats_step env_one tick_due (locals_due, world_after) = Some (locals_due, world_after)"
    by (simp add: stats_step_def stats_interval_def tick_due_def locals_due_def)
  have rs: "reconnect_step env_one tick_due (locals_due, world_after) = Some (locals_due, world_after)"
    by (simp add: reconnect_step_def tick_due_def)
  have body: "mainLoop_body env_one tick_due (locals_zero, world_one)
      = Some (Continue (locals_due, world_after))"
    using world_one_ready(2) p hs fs ss rs
    by (simp add: mainLoop_body_def handleReload_def tick_due_def)
  have t: "table_heartbeat ipc_started 100 = Some 0"
    by (simp add: table_heartbeat_def ipc_started_eq find_pid_def)
  from body t brk show ?thesis
    by (simp add: world_after_def world_one_def env_one_def)
qed

section \<open>The two flush triggers\<close>

lemma heartbeat_step_frame:
  "\<exists>s'. heartbeat_step env tk s = Some s'
      \<and> ww_sink (snd s') = ww_sink (snd s)
      \<and> wp_data_buffers (ww_self (snd s')) = wp_data_buffers (ww_self (snd s))
      \<and> wp_db_manager (ww_self (snd s')) = wp_db_manager (ww_self (snd s))
      \<and> last_flush (fst s') = last_flush (fst s)"
proof (cases "heartbeat_interval \<le> t_now tk - last_heartbeat_at (fst s)")
  case False
  then show ?thesis by (simp add: heartbeat_step_def)
next
  case True
  from sendHeartbeat_effect [of env "snd s"] obtain w' where
    "sendHeartbeat env (snd s) = Some w'"
    "ww_self w' = (ww_self (snd s))\<lparr>wp_last_heartbeat_time := e_time env\<rparr>"
    "ww_sink w' = ww_sink (snd s)"
    by blast
  with True show ?thesis by (simp add: heartbeat_step_def)
qed

lemma onMarketData_size_trigger:
  assumes "wp_db_manager (ww_self w)" and "0 \<le> e_batch_size env" and "e_batch_size env < 2 ^ 64"
    and "wp_data_buffers (ww_self w) (data_type d) = Some buf"
  shows "if e_batch_size env \<le> int (length buf) + 1
         then ww_sink (onMarketData env d w) = ww_sink w @ [buf @ [d]]
              \<and> (e_saveMarketDataBatch env (length (ww_sink w)) (buf @ [d]) \<noteq> Threw
                    \<longrightarrow> wp_data_buffers (ww_self (onMarketData env d w)) (data_type d) = Some [])
         else ww_sink (onMarketData env d w) = ww_sink w
              \<and> wp_data_buffers (ww_self (onMarketData env d w)) (data_type d) = Some (buf @ [d])"
proof -
  have m: "e_batch_size env mod 2 ^ 64 = e_batch_size env"
    using assms(2,3) by simp
  let ?st = "wp_statistics (ww_self w)"
  let ?wp1 = "(ww_self w)\<lparr>wp_statistics :=
                  ?st\<lparr>messages_processed := messages_processed ?st + 1,
                     data_received := data_received ?st + e_sizeof_MarketData env,
                     last_update := e_time env\<rparr>\<rparr>"
  let ?w2 = "w\<lparr>ww_self := ?wp1\<lparr>wp_data_buffers := (wp_data_buffers ?wp1)(data_type d \<mapsto> buf @ [d])\<rparr>\<rparr>"
  show ?thesis
  proof (cases "e_batch_size env \<le> int (length buf) + 1")
    case False
    with assms(4) m show ?thesis
      by (simp add: onMarketData_def Let_def)
  next
    case True
    with assms(4) m have on: "onMarketData env d w = flushDataBuffer env (data_type d) ?w2"
      by (simp add: onMarketData_def Let_def)
    have db: "wp_db_manager (ww_self ?w2)" using assms(1) by simp
    have b: "wp_data_buffers (ww_self ?w2) (data_type d) = Some (buf @ [d])" by simp
    have "ww_sink (flushDataBuffer env (data_type d) ?w2) = ww_sink ?w2 @ [buf @ [d]]"
      using db b by (rule flushDataBuffer_sink) simp
    moreover have "wp_data_buffers (ww_self (flushDataBuffer env (data_type d) ?w2)) (data_type d) = Some []"
      if "e_saveMarketDataBatch env (length (ww_sink w)) (buf @ [d]) \<noteq> Threw"
      using b that by (intro flushDataBuffer_cleared [where buf = "buf @ [d]"]) simp_all
    ultimately show ?thesis
      using True on by simp
  qed
qed

lemma mainLoop_time_trigger:
  assumes "wp_db_manager (ww_self w)"
    and "\<not> t_shutdown_requested tk" and "\<not> getShutdownFlag (ww_ipc w)"
  shows "\<exists>l' w'. mainLoop_body env tk (l, w) = Some (Continue (l', w'))
      \<and> (if flush_interval env \<le> t_now tk - last_flush l
          then ww_sink w' = ww_sink w @ pending (ww_self w) \<and> last_flush l' = t_now tk
               \<and> ((\<forall>i batch. e_saveMarketDataBatch env i batch \<noteq> Threw) \<longrightarrow> pending (ww_self w') = [])
          else ww_sink w' = ww_sink w \<and> last_flush l' = last_flush l
               \<and> wp_data_buffers (ww_self w') = wp_data_buffers (ww_self w))"
proof -
  from mainLoop_body_steps [OF assms(2,3)] obtain w1 s2 s4 s5 where
    w1: "processIPCMessages w = Some w1"
    and s2: "heartbeat_step env tk (l, w1) = Some s2"
    and s4: "stats_step env tk (flush_step env tk s2) = Some s4"
    and s5: "reconnect_step env tk s4 = Some s5"
    and body: "mainLoop_body env tk (l, w) = Some (Continue s5)"
    by blast
  from processIPCMessages_frame [of w] w1 have k1: "ww_sink w1 = ww_sink w"
    and self1: "(ww_self w1)\<lparr>wp_running := True\<rparr> = (ww_self w)\<lparr>wp_running := True\<rparr>"
    by auto
  from heartbeat_step_frame [of env tk "(l, w1)"] s2 have k2: "ww_sink (snd s2) = ww_sink w"
    and b2: "wp_data_buffers (ww_self (snd s2)) = wp_data_buffers (ww_self w)"
    and d2: "wp_db_manager (ww_self (snd s2))"
    and l2: "last_flush (fst s2) = last_flush l"
    using k1 same_but_running(3,5) [OF self1] assms(1) by auto
  have p2: "pending (ww_self (snd s2)) = pending (ww_self w)"
    using b2 by (simp add: pending_def)
  let ?s3 = "flush_step env tk s2"
  from stats_step_frame [of env tk ?s3] s4 have f4: "ww_self (snd s4) = ww_self (snd ?s3)"
    "ww_sink (snd s4) = ww_sink (snd ?s3)" "last_flush (fst s4) = last_flush (fst ?s3)"
    by auto
  from reconnect_step_frame [of env tk s4] s5 have f5: "ww_self (snd s5) = ww_self (snd s4)"
    "ww_sink (snd s5) = ww_sink (snd s4)" "fst s5 = fst s4"
    by auto
  have same: "ww_self (snd s5) = ww_self (snd ?s3)" "ww_sink (snd s5) = ww_sink (snd ?s3)"
    "last_flush (fst s5) = last_flush (fst ?s3)"
    using f4 f5 by simp_all
  show ?thesis
  proof (cases "flush_interval env \<le> t_now tk - last_flush l")
    case True
    with l2 have s3: "?s3 = ((fst s2)\<lparr>last_flush := t_now tk\<rparr>, flushDataBuffers env (snd s2))"
      by (simp add: flush_step_def)
    have a: "ww_sink (snd s5) = ww_sink w @ pending (ww_self w)"
      using same(2) s3 flushDataBuffers_sink [OF d2, of env] k2 p2 by simp
    have b: "last_flush (fst s5) = t_now tk"
      using same(3) s3 by simp
    have c: "pending (ww_self (snd s5)) = []"
      if "\<forall>i batch. e_saveMarketDataBatch env i batch \<noteq> Threw"
      using same(1) s3 flushDataBuffers_cleared [of env "snd s2"] that by simp
    from body True a b c show ?thesis
      by (intro exI [of _ "fst s5"] exI [of _ "snd s5"]) auto
  next
    case False
    with l2 have s3: "?s3 = s2"
      by (simp add: flush_step_def)
    from body False same s3 k2 b2 l2 show ?thesis
      by (intro exI [of _ "fst s5"] exI [of _ "snd s5"]) auto
  qed
qed

text \<open>
  C8. A worker with a database manager and a batch size in the range of the comparison.
  Size trigger, on each incoming record whose category has a buffer: the record is
  appended, and when the buffer has then reached the batch size the whole buffer is
  handed to the sink in the same call (and cleared, unless the sink throws); below the
  batch size nothing is handed over and the record stays buffered. Time trigger, in each
  pass of the main loop that gets past the shutdown checks: when the flush interval has
  elapsed since the loop's last timed flush, every non-empty buffer is handed to the
  sink, in category order, and the time of the flush is noted; otherwise the pass hands
  nothing to the sink and leaves the buffers as they are. Either trigger flushes without
  the other: a full buffer does not wait for the interval, and an elapsed interval
  flushes buffers below the batch size.
\<close>

theorem flush_size_and_time_triggers:
  assumes "wp_db_manager (ww_self w)" and "0 \<le> e_batch_size env" and "e_batch_size env < 2 ^ 64"
  shows "(\<forall>buf. wp_data_buffers (ww_self w) (data_type d) = Some buf \<longrightarrow>
            (if e_batch_size env \<le> int (length buf) + 1
             then ww_sink (onMarketData env d w) = ww_sink w @ [buf @ [d]]
                  \<and> (e_saveMarketDataBatch env (length (ww_sink w)) (buf @ [d]) \<noteq> Threw
                        \<longrightarrow> wp_data_buffers (ww_self (onMarketData env d w)) (data_type d) = Some [])
             else ww_sink (onMarketData env d w) = ww_sink w
                  \<and> wp_data_buffers (ww_self (onMarketData env d w)) (data_type d) = Some (buf @ [d])))
       \<and> (\<not> t_shutdown_requested tk \<and> \<not> getShutdownFlag (ww_ipc w) \<longrightarrow>
            (\<exists>l' w'. mainLoop_body env tk (l, w) = Some (Continue (l', w'))
               \<and> (if flush_interval env \<le> t_now tk - last_flush l
                   then ww_sink w' = ww_sink w @ pending (ww_self w) \<and> last_flush l' = t_now tk
                        \<and> ((\<forall>i batch. e_saveMarketDataBatch env i batch \<noteq> Threw)
                              \<longrightarrow> pending (ww_self w') = [])
                   else ww_sink w' = ww_sink w \<and> last_flush l' = last_flush l
                        \<and> wp_data_buffers (ww_self w') = wp_data_buffers (ww_self w))))"
  using onMarketData_size_trigger [OF assms] mainLoop_time_trigger [OF assms(1)]
  by blast

theorem flush_size_and_time_triggers_witness:
  "ww_sink (onMarketData env_one tick_a world_one) = []
   \<and> wp_data_buffers (ww_self (onMarketData env_one tick_a world_one)) TICK = Some [tick_a]
   \<and> ww_sink (onMarketData env_one tick_b (onMarketData env_one tick_a world_one)) = [[tick_a, tick_b]]
   \<and> wp_data_buffers (ww_self (onMarketData env_one tick_b (onMarketData env_one tick_a world_one))) TICK
        = Some []
   \<and> (\<exists>l' w'. mainLoop_body env_one tick_due (locals_zero, onMarketData env_one tick_a world_one)
                 = Some (Continue (l', w'))
         \<and> ww_sink w' = [[tick_a]] \<and> pending (ww_self w') = [] \<and> last_flush l' = 31000000000)"
proof -
  let ?wa = "onMarketData env_one tick_a world_one"
  have env: "0 \<le> e_batch_size env_one" "e_batch_size env_one < 2 ^ 64" "e_batch_size env_one = 2"
    by (simp_all add: env_one_def)
  have nothrow: "\<forall>i batch. e_saveMarketDataBatch env_one i batch \<noteq> Threw"
    by (simp add: env_one_def)
  have w0: "wp_db_manager (ww_self world_one)" "ww_sink world_one = []"
    "wp_data_buffers (ww_self world_one) (data_type tick_a) = Some []"
    by (simp_all add: world_one_def worker_one_def tick_a_def)
  have ty: "data_type tick_a = TICK" "data_type tick_b = TICK"
    by (simp_all add: tick_a_def tick_b_def)
  note t1 = flush_size_and_time_triggers [OF w0(1) env(1,2), of tick_a tick_due locals_zero]
  from t1 w0(2,3) env(3) have a: "ww_sink ?wa = []"
    and b: "wp_data_buffers (ww_self ?wa) (data_type tick_a) = Some [tick_a]"
    by auto
  have wa: "wp_db_manager (ww_self ?wa)" "ww_ipc ?wa = ipc_started"
    by (simp_all add: onMarketData_def Let_def world_one_def worker_one_def tick_a_def env_one_def)
  have pa: "pending (ww_self ?wa) = [[tick_a]]"
    using b ty wa
    by (simp add: pending_def all_types_def List.map_filter_simps onMarketData_def Let_def
        world_one_def worker_one_def env_one_def tick_a_def)
  note t2 = flush_size_and_time_triggers [OF wa(1) env(1,2), of tick_b tick_due locals_zero]
  from t2 a b ty env(3) nothrow have c: "ww_sink (onMarketData env_one tick_b ?wa) = [[tick_a, tick_b]]"
    and d: "wp_data_buffers (ww_self (onMarketData env_one tick_b ?wa)) TICK = Some []"
    by auto
  have flag: "\<not> getShutdownFlag (ww_ipc ?wa)"
    unfolding wa(2) by (simp add: ipc_started_eq getShutdownFlag_def)
  have ready: "\<not> t_shutdown_requested tick_due"
    "flush_interval env_one \<le> t_now tick_due - last_flush locals_zero"
    "t_now tick_due = 31000000000"
    by (simp_all add: flush_interval_def env_one_def tick_due_def locals_zero_def)
  from t2 flag ready nothrow obtain l' w' where
    "mainLoop_body env_one tick_due (locals_zero, ?wa) = Some (Continue (l', w'))"
    "ww_sink w' = ww_sink ?wa @ pending (ww_self ?wa)" "last_flush l' = t_now tick_due"
    "pending (ww_self w') = []"
    by auto
  with a pa ready(3) have e: "\<exists>l' w'. mainLoop_body env_one tick_due (locals_zero, ?wa)
                 = Some (Continue (l', w'))
         \<and> ww_sink w' = [[tick_a]] \<and> pending (ww_self w') = [] \<and> last_flush l' = 31000000000"
    by auto
  from a b c d e ty show ?thesis
    by simp
qed

end
